theory Spec2Isabelle
  imports Main "HOL-Library.Word"
begin

section \<open>JavaScript strings\<close>

text \<open>
  A JavaScript string is a sequence of UTF-16 code units. Comparison (\<open>===\<close>),
  \<open>trim\<close>, \<open>endsWith\<close> and a regular expression without the \<open>u\<close> flag all
  work on code units, so a string is a list of 16-bit words. The source's string
  literals are ASCII (one em dash apart, written as the code unit \<open>0x2014\<close>);
  \<open>lit\<close> embeds an ASCII literal.
\<close>

type_synonym js_string = "16 word list"

definition lit :: "string \<Rightarrow> js_string" where
  "lit s = map (\<lambda>c. word_of_nat (of_char c)) s"

text \<open>
  The code units that \<open>String.prototype.trim\<close> strips and that \<open>\s\<close> matches:
  ECMAScript's WhiteSpace and LineTerminator productions (TAB, LF, VT, FF, CR, SP,
  NBSP, U+1680, U+2000 to U+200A, LS, PS, U+202F, U+205F, U+3000, BOM).
\<close>

definition is_space :: "16 word \<Rightarrow> bool" where
  "is_space c \<longleftrightarrow>
     c \<in> set [0x0009, 0x000A, 0x000B, 0x000C, 0x000D, 0x0020, 0x00A0, 0x1680,
               0x2028, 0x2029, 0x202F, 0x205F, 0x3000, 0xFEFF]
     \<or> (0x2000 \<le> c \<and> c \<le> 0x200A)"

definition trim :: "js_string \<Rightarrow> js_string" where
  "trim s = rev (dropWhile is_space (rev (dropWhile is_space s)))"

definition endsWith :: "js_string \<Rightarrow> js_string \<Rightarrow> bool" where
  "endsWith s suffix \<longleftrightarrow>
     length suffix \<le> length s \<and> drop (length s - length suffix) s = suffix"

section \<open>The regular expression of the email check\<close>

text \<open>
  The handler's only regular expression is \<^verbatim>\<open>/^[^\s@]+@[^\s@]+\.[^\s@]+$/\<close>: a
  sequence of single-character atoms, some under \<open>+\<close>, anchored at both ends and
  without flags. That fragment is modelled as a list of pieces with a backtracking
  matcher that, like the engine, first tries to extend a \<open>+\<close> and then to go on
  with the rest; the empty list of pieces is the closing anchor \<open>$\<close>.
\<close>

datatype class_item = Space | Ch "16 word"

datatype atom = Char "16 word" | NoneOf "class_item list"

datatype piece = Once atom | OneOrMore atom

fun item_matches :: "class_item \<Rightarrow> 16 word \<Rightarrow> bool" where
  "item_matches Space c = is_space c"
| "item_matches (Ch k) c = (c = k)"

fun atom_matches :: "atom \<Rightarrow> 16 word \<Rightarrow> bool" where
  "atom_matches (Char k) c = (c = k)"
| "atom_matches (NoneOf items) c = (\<not> list_ex (\<lambda>i. item_matches i c) items)"

fun regex_test :: "piece list \<Rightarrow> js_string \<Rightarrow> bool" where
  "regex_test [] s = (s = [])"
| "regex_test (p # ps) [] = False"
| "regex_test (Once a # ps) (c # cs) = (atom_matches a c \<and> regex_test ps cs)"
| "regex_test (OneOrMore a # ps) (c # cs) =
     (atom_matches a c \<and> (regex_test (OneOrMore a # ps) cs \<or> regex_test ps cs))"

text \<open>\<open>0x40\<close> is \<open>@\<close> and \<open>0x2E\<close> is the full stop.\<close>

definition EMAIL_RE :: "piece list" where
  "EMAIL_RE =
     [OneOrMore (NoneOf [Space, Ch 0x40]), Once (Char 0x40),
      OneOrMore (NoneOf [Space, Ch 0x40]), Once (Char 0x2E),
      OneOrMore (NoneOf [Space, Ch 0x40])]"

section \<open>JavaScript values\<close>

text \<open>
  The values the handler sees: what \<open>request.json()\<close> produces, plus \<open>undefined\<close>
  for a property that is not there. An object is the list of its own properties, each
  key once, as \<open>JSON.parse\<close> builds it. Numbers are IEEE doubles on the platform; the
  handler never computes with one, it only tests it for truth and formats it into a
  template, so the number type is a parameter \<open>'n\<close> and those two operations of the
  host come with it.
\<close>

datatype exn = TypeError | NetworkError

datatype 'n js =
    JUndefined
  | JNull
  | JBool bool
  | JNum 'n
  | JStr js_string
  | JArr "'n js list"
  | JObj "(js_string \<times> 'n js) list"

record 'n host =
  numToString :: "'n \<Rightarrow> js_string"
  numIsZero :: "'n \<Rightarrow> bool"

text \<open>A host for integral numbers, which print in decimal.\<close>

fun decimal :: "nat \<Rightarrow> js_string" where
  "decimal n = (if n < 10 then [0x30 + of_nat n] else decimal (n div 10) @ [0x30 + of_nat (n mod 10)])"

declare decimal.simps [simp del]

definition integer_host :: "int host" where
  "integer_host =
     \<lparr>numToString = (\<lambda>i. if i < 0 then 0x2D # decimal (nat (- i)) else decimal (nat i)),
      numIsZero = (\<lambda>i. i = 0)\<rparr>"

text \<open>ToBoolean, as \<open>!\<close> and \<open>||\<close> apply it.\<close>

fun truthy :: "'n host \<Rightarrow> 'n js \<Rightarrow> bool" where
  "truthy h JUndefined = False"
| "truthy h JNull = False"
| "truthy h (JBool b) = b"
| "truthy h (JNum n) = (\<not> numIsZero h n)"
| "truthy h (JStr s) = (s \<noteq> [])"
| "truthy h (JArr xs) = True"
| "truthy h (JObj kvs) = True"

fun join :: "js_string \<Rightarrow> js_string list \<Rightarrow> js_string" where
  "join sep [] = []"
| "join sep [x] = x"
| "join sep (x # y # ys) = x @ sep @ join sep (y # ys)"

fun sequence :: "(exn + 'a) list \<Rightarrow> exn + 'a list" where
  "sequence [] = Inr []"
| "sequence (Inl e # rs) = Inl e"
| "sequence (Inr v # rs) = (case sequence rs of Inl e \<Rightarrow> Inl e | Inr vs \<Rightarrow> Inr (v # vs))"

text \<open>
  ToString, as a template literal and \<open>RegExp.prototype.test\<close> apply it to their
  argument. An array joins its elements with commas, \<open>null\<close> and \<open>undefined\<close>
  elements as empty strings. A parsed object prints through \<open>Object.prototype.toString\<close>
  unless it has an own property \<open>toString\<close>: that one is JSON data, not callable, the
  inherited \<open>valueOf\<close> (or an own one) gives no primitive either, and the conversion
  throws a TypeError.
\<close>

fun to_string :: "'n host \<Rightarrow> 'n js \<Rightarrow> exn + js_string" where
  "to_string h JUndefined = Inr (lit ''undefined'')"
| "to_string h JNull = Inr (lit ''null'')"
| "to_string h (JBool b) = Inr (if b then lit ''true'' else lit ''false'')"
| "to_string h (JNum n) = Inr (numToString h n)"
| "to_string h (JStr s) = Inr s"
| "to_string h (JArr xs) =
     (case sequence (map (\<lambda>x. if x = JUndefined \<or> x = JNull then Inr [] else to_string h x) xs) of
        Inl e \<Rightarrow> Inl e
      | Inr ss \<Rightarrow> Inr (join (lit '','') ss))"
| "to_string h (JObj kvs) =
     (if lit ''toString'' \<in> fst ` set kvs then Inl TypeError else Inr (lit ''[object Object]''))"

text \<open>
  Reading a property, \<open>data[field]\<close> or \<open>data.email\<close>: a TypeError on \<open>null\<close> and
  \<open>undefined\<close>, the own property of an object, and \<open>undefined\<close> otherwise. The
  handler reads eight names only (the six required ones, \<open>phone\<close> and \<open>message\<close>),
  none of which a string, a number, a boolean, an array or \<open>Object.prototype\<close> has.
\<close>

fun get_prop :: "'n js \<Rightarrow> js_string \<Rightarrow> exn + 'n js" where
  "get_prop JUndefined k = Inl TypeError"
| "get_prop JNull k = Inl TypeError"
| "get_prop (JObj kvs) k = (case map_of kvs k of None \<Rightarrow> Inr JUndefined | Some v \<Rightarrow> Inr v)"
| "get_prop v k = Inr JUndefined"

text \<open>
  \<open>v?.trim()\<close>: \<open>undefined\<close> when \<open>v\<close> is \<open>null\<close> or \<open>undefined\<close>, the trimmed
  string when \<open>v\<close> is a string. Any other value has no callable \<open>trim\<close> (a number,
  a boolean and an array inherit none, an object's own \<open>trim\<close> would be JSON data),
  and the call throws a TypeError.
\<close>

fun optional_trim :: "'n js \<Rightarrow> exn + 'n js" where
  "optional_trim JUndefined = Inr JUndefined"
| "optional_trim JNull = Inr JUndefined"
| "optional_trim (JStr s) = Inr (JStr (trim s))"
| "optional_trim v = Inl TypeError"

subsection \<open>Template literals\<close>

definition bind_exn :: "exn + 'a \<Rightarrow> ('a \<Rightarrow> exn + 'b) \<Rightarrow> exn + 'b" where
  "bind_exn m f = (case m of Inl e \<Rightarrow> Inl e | Inr v \<Rightarrow> f v)"

text \<open>
  A template literal is the list of its parts, evaluated from left to right: \<open>quasi\<close>
  is a literal chunk, \<open>interp\<close> a substitution \<^verbatim>\<open>${e}\<close>, and \<open>or_else\<close> the
  expression \<^verbatim>\<open>e || 'default'\<close>. A substitution converts its value with ToString,
  which is also what \<open>test\<close> does to \<open>data.email\<close>.
\<close>

definition quasi :: "string \<Rightarrow> exn + js_string" where
  "quasi s = Inr (lit s)"

definition interp :: "'n host \<Rightarrow> exn + 'n js \<Rightarrow> exn + js_string" where
  "interp h r = bind_exn r (to_string h)"

definition or_else :: "'n host \<Rightarrow> exn + 'n js \<Rightarrow> 'n js \<Rightarrow> exn + 'n js" where
  "or_else h r d = bind_exn r (\<lambda>v. Inr (if truthy h v then v else d))"

fun template :: "(exn + js_string) list \<Rightarrow> exn + js_string" where
  "template [] = Inr []"
| "template (p # ps) = bind_exn p (\<lambda>s. bind_exn (template ps) (\<lambda>t. Inr (s @ t)))"

section \<open>Requests, responses and the outside world\<close>

text \<open>
  Of the inbound request the handler reads the method, the \<open>Origin\<close> header
  (\<open>request.headers.get('Origin')\<close>, \<open>None\<close> for \<open>null\<close>) and the parsed body
  (\<open>request.json()\<close>, \<open>None\<close> when that promise rejects).
\<close>

record 'n request =
  http_method :: js_string
  origin_header :: "js_string option"
  json :: "'n js option"

text \<open>
  A response of the handler: the body is \<open>None\<close> for \<open>new Response(null, ...)\<close> and
  otherwise the value handed to \<open>JSON.stringify\<close>.
\<close>

record 'n response =
  res_status :: nat
  res_headers :: "(js_string \<times> js_string) list"
  res_body :: "'n js option"

text \<open>An outbound call \<open>fetch(url, {method, headers, body: JSON.stringify(...)})\<close>.\<close>

record 'n outbound =
  out_url :: js_string
  out_method :: js_string
  out_headers :: "(js_string \<times> js_string) list"
  out_body :: "'n js"

text \<open>What the provider answers: its status line and the text of its body.\<close>

record upstream =
  up_status :: nat
  up_text :: js_string

datatype fetch_outcome = Rejected | Resolved upstream

definition ok :: "upstream \<Rightarrow> bool" where
  "ok r \<longleftrightarrow> 200 \<le> up_status r \<and> up_status r \<le> 299"

text \<open>
  The effects of one invocation: the outbound calls made so far, the lines written with
  \<open>console.error\<close>, and whether the request body has been consumed. The provider
  decides each call from the calls before it and the call itself.
\<close>

record 'n world =
  sent :: "'n outbound list"
  console :: "js_string list list"
  bodyUsed :: bool

type_synonym 'n provider = "'n outbound list \<Rightarrow> 'n outbound \<Rightarrow> fetch_outcome"

record env =
  TO_EMAIL :: "js_string option"
  RESEND_API_KEY :: "js_string option"

definition request_json :: "'n request \<Rightarrow> 'n world \<Rightarrow> 'n js option \<times> 'n world" where
  "request_json request w = (json request, w\<lparr>bodyUsed := True\<rparr>)"

definition http_fetch :: "'n provider \<Rightarrow> 'n outbound \<Rightarrow> 'n world \<Rightarrow> (exn + upstream) \<times> 'n world" where
  "http_fetch provider q w =
     (case provider (sent w) q of Rejected \<Rightarrow> Inl NetworkError | Resolved r \<Rightarrow> Inr r,
      w\<lparr>sent := sent w @ [q]\<rparr>)"

definition console_error :: "js_string list \<Rightarrow> 'n world \<Rightarrow> 'n world" where
  "console_error args w = w\<lparr>console := console w @ [args]\<rparr>"

section \<open>The helpers shared by both workers\<close>

text \<open>
  \<open>ALLOWED_ORIGIN\<close>, \<open>corsHeaders\<close>, \<open>jsonResponse\<close>, \<open>buildEmailHtml\<close> and
  \<open>buildConfirmationHtml\<close> have the same text in \<open>src/workers/contact-form.js\<close>
  (the MailChannels worker) and in \<open>src/unnamed/part_000\<close> (the Resend worker).
\<close>

definition ALLOWED_ORIGIN :: js_string where
  "ALLOWED_ORIGIN = lit ''https://www.chalet-josephine.com''"

definition corsHeaders :: "'n request \<Rightarrow> (js_string \<times> js_string) list" where
  "corsHeaders request =
     (let origin = (case origin_header request of None \<Rightarrow> [] | Some s \<Rightarrow> if s = [] then [] else s);
          allowed = (origin = ALLOWED_ORIGIN \<or> endsWith origin (lit ''.chalet-josephine.com''))
      in [(lit ''Access-Control-Allow-Origin'', if allowed then origin else ALLOWED_ORIGIN),
          (lit ''Access-Control-Allow-Methods'', lit ''POST, OPTIONS''),
          (lit ''Access-Control-Allow-Headers'', lit ''Content-Type'')])"

definition jsonResponse :: "'n js \<Rightarrow> nat \<Rightarrow> 'n request \<Rightarrow> 'n response" where
  "jsonResponse body status request =
     \<lparr>res_status = status,
      res_headers = (lit ''Content-Type'', lit ''application/json'') # corsHeaders request,
      res_body = Some body\<rparr>"

text \<open>The two HTML documents, chunk by chunk as the template literals have them.\<close>

definition buildEmailHtml :: "'n host \<Rightarrow> 'n js \<Rightarrow> exn + js_string" where
  \<open>buildEmailHtml h data = template
    [quasi ''\<newline>'',
     quasi ''    <div style="font-family: Arial, sans-serif; max-width: 600px; margin: 0 auto;">\<newline>'',
     quasi ''      <h2 style="color: #8B7355;">New Booking Enquiry</h2>\<newline>'',
     quasi ''      <table style="width: 100%; border-collapse: collapse;">\<newline>'',
     quasi ''        <tr><td style="padding: 8px; border-bottom: 1px solid #eee;"><strong>Name:</strong></td><td style="padding: 8px; border-bottom: 1px solid #eee;">'',
     interp h (get_prop data (lit ''first_name'')),
     quasi '' '',
     interp h (get_prop data (lit ''last_name'')),
     quasi ''</td></tr>\<newline>'',
     quasi ''        <tr><td style="padding: 8px; border-bottom: 1px solid #eee;"><strong>Email:</strong></td><td style="padding: 8px; border-bottom: 1px solid #eee;"><a href="mailto:'',
     interp h (get_prop data (lit ''email'')),
     quasi ''">'',
     interp h (get_prop data (lit ''email'')),
     quasi ''</a></td></tr>\<newline>'',
     quasi ''        <tr><td style="padding: 8px; border-bottom: 1px solid #eee;"><strong>Phone:</strong></td><td style="padding: 8px; border-bottom: 1px solid #eee;">'',
     interp h (or_else h (get_prop data (lit ''phone'')) (JStr (lit ''Not provided''))),
     quasi ''</td></tr>\<newline>'',
     quasi ''        <tr><td style="padding: 8px; border-bottom: 1px solid #eee;"><strong>Arrival:</strong></td><td style="padding: 8px; border-bottom: 1px solid #eee;">'',
     interp h (get_prop data (lit ''arrival_date'')),
     quasi ''</td></tr>\<newline>'',
     quasi ''        <tr><td style="padding: 8px; border-bottom: 1px solid #eee;"><strong>Departure:</strong></td><td style="padding: 8px; border-bottom: 1px solid #eee;">'',
     interp h (get_prop data (lit ''departure_date'')),
     quasi ''</td></tr>\<newline>'',
     quasi ''        <tr><td style="padding: 8px; border-bottom: 1px solid #eee;"><strong>Guests:</strong></td><td style="padding: 8px; border-bottom: 1px solid #eee;">'',
     interp h (get_prop data (lit ''guests'')),
     quasi ''</td></tr>\<newline>'',
     quasi ''        <tr><td style="padding: 8px;" valign="top"><strong>Message:</strong></td><td style="padding: 8px;">'',
     interp h (or_else h (get_prop data (lit ''message'')) (JStr (lit ''No message provided''))),
     quasi ''</td></tr>\<newline>'',
     quasi ''      </table>\<newline>'',
     quasi ''    </div>\<newline>'',
     quasi ''  '']\<close>

definition buildConfirmationHtml :: "'n host \<Rightarrow> 'n js \<Rightarrow> exn + js_string" where
  \<open>buildConfirmationHtml h data = template
    [quasi ''\<newline>'',
     quasi ''    <div style="font-family: Arial, sans-serif; max-width: 600px; margin: 0 auto;">\<newline>'',
     quasi ''      <h2 style="color: #8B7355;">Thank You, '',
     interp h (get_prop data (lit ''first_name'')),
     quasi ''!</h2>\<newline>'',
     quasi ''      <p>We have received your enquiry for Chalet Josephine and will be in touch within 24 hours.</p>\<newline>'',
     quasi ''      <h3>Your Enquiry Details:</h3>\<newline>'',
     quasi ''      <ul>\<newline>'',
     quasi ''        <li><strong>Arrival:</strong> '',
     interp h (get_prop data (lit ''arrival_date'')),
     quasi ''</li>\<newline>'',
     quasi ''        <li><strong>Departure:</strong> '',
     interp h (get_prop data (lit ''departure_date'')),
     quasi ''</li>\<newline>'',
     quasi ''        <li><strong>Guests:</strong> '',
     interp h (get_prop data (lit ''guests'')),
     quasi ''</li>\<newline>'',
     quasi ''      </ul>\<newline>'',
     quasi ''      <p>If you have any urgent questions, please contact us at <a href="mailto:info@chalet-josephine.com">info@chalet-josephine.com</a>.</p>\<newline>'',
     quasi ''      <p>Warm regards,<br>The Chalet Josephine Team<br>Managed by Chamonix Prestige</p>\<newline>'',
     quasi ''    </div>\<newline>'',
     quasi ''  '']\<close>

section \<open>Validation\<close>

definition required :: "js_string list" where
  "required = [lit ''first_name'', lit ''last_name'', lit ''email'', lit ''arrival_date'',
               lit ''departure_date'', lit ''guests'']"

text \<open>
  The loop \<^verbatim>\<open>for (const field of required) if (!data[field]?.trim()) return ...\<close>:
  the result is the field the loop returns at, \<open>None\<close> when it runs to its end, or the
  exception that leaves it.
\<close>

fun required_loop :: "'n host \<Rightarrow> 'n js \<Rightarrow> js_string list \<Rightarrow> exn + js_string option" where
  "required_loop h data [] = Inr None"
| "required_loop h data (field # rest) =
     bind_exn (get_prop data field) (\<lambda>v.
     bind_exn (optional_trim v) (\<lambda>t.
     if \<not> truthy h t then Inr (Some field) else required_loop h data rest))"

text \<open>
  \<^verbatim>\<open>const toEmail = env.TO_EMAIL || 'info@chalet-josephine.com'\<close>, the same line in
  both workers: the default stands in for \<open>undefined\<close> and for the empty string.
\<close>

definition toEmail :: "env \<Rightarrow> js_string" where
  "toEmail env =
     (case TO_EMAIL env of
        None \<Rightarrow> lit ''info@chalet-josephine.com''
      | Some s \<Rightarrow> if s = [] then lit ''info@chalet-josephine.com'' else s)"

section \<open>The MailChannels worker (\<open>src/workers/contact-form.js\<close>)\<close>

text \<open>The two outbound calls, in the evaluation order of their object literals.\<close>

definition mailchannels_enquiry :: "'n host \<Rightarrow> js_string \<Rightarrow> 'n js \<Rightarrow> exn + 'n outbound" where
  "mailchannels_enquiry h recipient data =
     bind_exn (get_prop data (lit ''email'')) (\<lambda>email.
     bind_exn (template [interp h (get_prop data (lit ''first_name'')), quasi '' '',
                         interp h (get_prop data (lit ''last_name''))]) (\<lambda>name.
     bind_exn (template [quasi ''Booking Enquiry: '', interp h (get_prop data (lit ''first_name'')),
                         quasi '' '', interp h (get_prop data (lit ''last_name'')),
                         quasi '' '', Inr [0x2014], quasi '' '',
                         interp h (get_prop data (lit ''arrival_date'')), quasi '' to '',
                         interp h (get_prop data (lit ''departure_date''))]) (\<lambda>subject.
     bind_exn (buildEmailHtml h data) (\<lambda>html.
     Inr \<lparr>out_url = lit ''https://api.mailchannels.net/tx/v1/send'',
          out_method = lit ''POST'',
          out_headers = [(lit ''content-type'', lit ''application/json'')],
          out_body = JObj
            [(lit ''personalizations'', JArr [JObj
                [(lit ''to'', JArr [JObj [(lit ''email'', JStr recipient),
                                          (lit ''name'', JStr (lit ''Chalet Josephine''))]]),
                 (lit ''reply_to'', JObj [(lit ''email'', email), (lit ''name'', JStr name)])]]),
             (lit ''from'', JObj [(lit ''email'', JStr (lit ''noreply@chalet-josephine.com'')),
                                  (lit ''name'', JStr (lit ''Chalet Josephine Website''))]),
             (lit ''subject'', JStr subject),
             (lit ''content'', JArr [JObj [(lit ''type'', JStr (lit ''text/html'')),
                                           (lit ''value'', JStr html)]])]\<rparr>))))"

definition mailchannels_confirmation :: "'n host \<Rightarrow> 'n js \<Rightarrow> exn + 'n outbound" where
  "mailchannels_confirmation h data =
     bind_exn (get_prop data (lit ''email'')) (\<lambda>email.
     bind_exn (template [interp h (get_prop data (lit ''first_name'')), quasi '' '',
                         interp h (get_prop data (lit ''last_name''))]) (\<lambda>name.
     bind_exn (buildConfirmationHtml h data) (\<lambda>html.
     Inr \<lparr>out_url = lit ''https://api.mailchannels.net/tx/v1/send'',
          out_method = lit ''POST'',
          out_headers = [(lit ''content-type'', lit ''application/json'')],
          out_body = JObj
            [(lit ''personalizations'', JArr [JObj
                [(lit ''to'', JArr [JObj [(lit ''email'', email), (lit ''name'', JStr name)]])]]),
             (lit ''from'', JObj [(lit ''email'', JStr (lit ''noreply@chalet-josephine.com'')),
                                  (lit ''name'', JStr (lit ''Chalet Josephine''))]),
             (lit ''subject'', JStr (lit ''Thank you for your enquiry '' @ [0x2014] @ lit '' Chalet Josephine'')),
             (lit ''content'', JArr [JObj [(lit ''type'', JStr (lit ''text/html'')),
                                           (lit ''value'', JStr html)]])]\<rparr>)))"

text \<open>
  The handler \<open>fetch(request, env)\<close>. It returns the response, or the exception that
  escapes it, together with the world it leaves behind.
\<close>

definition fetch_mailchannels ::
  "'n host \<Rightarrow> env \<Rightarrow> 'n provider \<Rightarrow> 'n request \<Rightarrow> 'n world \<Rightarrow> (exn + 'n response) \<times> 'n world" where
  "fetch_mailchannels h env provider request w0 =
     (if http_method request = lit ''OPTIONS'' then
        (Inr \<lparr>res_status = 200, res_headers = corsHeaders request, res_body = None\<rparr>, w0)
      else if http_method request \<noteq> lit ''POST'' then
        (Inr (jsonResponse (JObj [(lit ''error'', JStr (lit ''Method not allowed''))]) 405 request), w0)
      else case request_json request w0 of
        (None, w1) \<Rightarrow>
          (Inr (jsonResponse (JObj [(lit ''error'', JStr (lit ''Invalid request body''))]) 400 request), w1)
      | (Some data, w1) \<Rightarrow>
          (case required_loop h data required of
             Inl e \<Rightarrow> (Inl e, w1)
           | Inr (Some field) \<Rightarrow>
               (Inr (jsonResponse
                  (JObj [(lit ''error'', JStr (lit ''Missing required field: '' @ field))]) 400 request), w1)
           | Inr None \<Rightarrow>
               (case interp h (get_prop data (lit ''email'')) of
                  Inl e \<Rightarrow> (Inl e, w1)
                | Inr email \<Rightarrow>
                    if \<not> regex_test EMAIL_RE email then
                      (Inr (jsonResponse
                         (JObj [(lit ''error'', JStr (lit ''Invalid email address''))]) 400 request), w1)
                    else
                     (case mailchannels_enquiry h (toEmail env) data of
                           Inl e \<Rightarrow> (Inl e, w1)
                         | Inr q1 \<Rightarrow>
                             (case http_fetch provider q1 w1 of
                                (Inl e, w2) \<Rightarrow> (Inl e, w2)
                              | (Inr emailResponse, w2) \<Rightarrow>
                                  if \<not> ok emailResponse then
                                    (Inr (jsonResponse
                                       (JObj [(lit ''error'',
                                               JStr (lit ''Failed to send enquiry. Please try again or contact us directly.''))])
                                       500 request),
                                     console_error [lit ''MailChannels error:'', up_text emailResponse] w2)
                                  else
                                    (case mailchannels_confirmation h data of
                                       Inl e \<Rightarrow> (Inl e, w2)
                                     | Inr q2 \<Rightarrow>
                                         (case http_fetch provider q2 w2 of
                                            (Inl e, w3) \<Rightarrow> (Inl e, w3)
                                          | (Inr confirmation, w3) \<Rightarrow>
                                              (Inr (jsonResponse
                                                 (JObj [(lit ''success'', JBool True),
                                                        (lit ''message'',
                                                         JStr (lit ''Enquiry received. We will respond within 24 hours.''))])
                                                 200 request), w3))))))))"

section \<open>The Resend worker (\<open>src/unnamed/part_000\<close>)\<close>

definition resend_enquiry :: "'n host \<Rightarrow> js_string \<Rightarrow> js_string \<Rightarrow> 'n js \<Rightarrow> exn + 'n outbound" where
  "resend_enquiry h apiKey recipient data =
     bind_exn (get_prop data (lit ''email'')) (\<lambda>email.
     bind_exn (template [quasi ''Booking Enquiry: '', interp h (get_prop data (lit ''first_name'')),
                         quasi '' '', interp h (get_prop data (lit ''last_name'')),
                         quasi '' '', Inr [0x2014], quasi '' '',
                         interp h (get_prop data (lit ''arrival_date'')), quasi '' to '',
                         interp h (get_prop data (lit ''departure_date''))]) (\<lambda>subject.
     bind_exn (buildEmailHtml h data) (\<lambda>html.
     Inr \<lparr>out_url = lit ''https://api.resend.com/emails'',
          out_method = lit ''POST'',
          out_headers = [(lit ''Authorization'', lit ''Bearer '' @ apiKey),
                         (lit ''Content-Type'', lit ''application/json'')],
          out_body = JObj
            [(lit ''from'', JStr (lit ''Chalet Josephine <noreply@chalet-josephine.com>'')),
             (lit ''to'', JArr [JStr recipient]),
             (lit ''reply_to'', email),
             (lit ''subject'', JStr subject),
             (lit ''html'', JStr html)]\<rparr>)))"

definition resend_confirmation :: "'n host \<Rightarrow> js_string \<Rightarrow> 'n js \<Rightarrow> exn + 'n outbound" where
  "resend_confirmation h apiKey data =
     bind_exn (get_prop data (lit ''email'')) (\<lambda>email.
     bind_exn (buildConfirmationHtml h data) (\<lambda>html.
     Inr \<lparr>out_url = lit ''https://api.resend.com/emails'',
          out_method = lit ''POST'',
          out_headers = [(lit ''Authorization'', lit ''Bearer '' @ apiKey),
                         (lit ''Content-Type'', lit ''application/json'')],
          out_body = JObj
            [(lit ''from'', JStr (lit ''Chalet Josephine <noreply@chalet-josephine.com>'')),
             (lit ''to'', JArr [email]),
             (lit ''subject'', JStr (lit ''Thank you for your enquiry '' @ [0x2014] @ lit '' Chalet Josephine'')),
             (lit ''html'', JStr html)]\<rparr>))"

text \<open>
  The handler. \<open>env.RESEND_API_KEY\<close> is a string or \<open>undefined\<close>; \<open>!apiKey\<close> holds for
  \<open>undefined\<close> and for the empty string.
\<close>

definition fetch_resend ::
  "'n host \<Rightarrow> env \<Rightarrow> 'n provider \<Rightarrow> 'n request \<Rightarrow> 'n world \<Rightarrow> (exn + 'n response) \<times> 'n world" where
  "fetch_resend h env provider request w0 =
     (if http_method request = lit ''OPTIONS'' then
        (Inr \<lparr>res_status = 200, res_headers = corsHeaders request, res_body = None\<rparr>, w0)
      else if http_method request \<noteq> lit ''POST'' then
        (Inr (jsonResponse (JObj [(lit ''error'', JStr (lit ''Method not allowed''))]) 405 request), w0)
      else case request_json request w0 of
        (None, w1) \<Rightarrow>
          (Inr (jsonResponse (JObj [(lit ''error'', JStr (lit ''Invalid request body''))]) 400 request), w1)
      | (Some data, w1) \<Rightarrow>
          (case required_loop h data required of
             Inl e \<Rightarrow> (Inl e, w1)
           | Inr (Some field) \<Rightarrow>
               (Inr (jsonResponse
                  (JObj [(lit ''error'', JStr (lit ''Missing required field: '' @ field))]) 400 request), w1)
           | Inr None \<Rightarrow>
               (case interp h (get_prop data (lit ''email'')) of
                  Inl e \<Rightarrow> (Inl e, w1)
                | Inr email \<Rightarrow>
                    if \<not> regex_test EMAIL_RE email then
                      (Inr (jsonResponse
                         (JObj [(lit ''error'', JStr (lit ''Invalid email address''))]) 400 request), w1)
                    else
                     (case RESEND_API_KEY env of
                        None \<Rightarrow>
                          (Inr (jsonResponse
                             (JObj [(lit ''error'', JStr (lit ''Email service not configured''))]) 500 request), w1)
                      | Some apiKey \<Rightarrow>
                          if apiKey = [] then
                            (Inr (jsonResponse
                               (JObj [(lit ''error'', JStr (lit ''Email service not configured''))]) 500 request), w1)
                          else
                           (case resend_enquiry h apiKey (toEmail env) data of
                                  Inl e \<Rightarrow> (Inl e, w1)
                                | Inr q1 \<Rightarrow>
                                    (case http_fetch provider q1 w1 of
                                       (Inl e, w2) \<Rightarrow> (Inl e, w2)
                                     | (Inr enquiryRes, w2) \<Rightarrow>
                                         if \<not> ok enquiryRes then
                                           (Inr (jsonResponse
                                              (JObj [(lit ''error'',
                                                      JStr (lit ''Failed to send enquiry. Please try again or contact us directly.''))])
                                              500 request),
                                            console_error [lit ''Resend error:'', up_text enquiryRes] w2)
                                         else
                                           (case resend_confirmation h apiKey data of
                                              Inl e \<Rightarrow> (Inl e, w2)
                                            | Inr q2 \<Rightarrow>
                                                (case http_fetch provider q2 w2 of
                                                   (Inl e, w3) \<Rightarrow> (Inl e, w3)
                                                 | (Inr confirmation, w3) \<Rightarrow>
                                                     (Inr (jsonResponse
                                                        (JObj [(lit ''success'', JBool True),
                                                               (lit ''message'',
                                                                JStr (lit ''Enquiry received. We will respond within 24 hours.''))])
                                                        200 request), w3)))))))))"

section \<open>Classes of input\<close>

text \<open>
  What a required field of the parsed body can hold, as the loop tells it apart: a
  string with something left after trimming; nothing, \<open>null\<close> or a string that trims
  to the empty one; or a value that is neither a string nor \<open>null\<close>.
\<close>

definition non_blank_text :: "'n js \<Rightarrow> js_string \<Rightarrow> bool" where
  "non_blank_text data field =
     (case get_prop data field of Inr (JStr s) \<Rightarrow> trim s \<noteq> [] | _ \<Rightarrow> False)"

definition blank_or_missing :: "'n js \<Rightarrow> js_string \<Rightarrow> bool" where
  "blank_or_missing data field =
     (case get_prop data field of
        Inr JUndefined \<Rightarrow> True
      | Inr JNull \<Rightarrow> True
      | Inr (JStr s) \<Rightarrow> trim s = []
      | _ \<Rightarrow> False)"

definition not_text :: "'n js \<Rightarrow> js_string \<Rightarrow> bool" where
  "not_text data field =
     (case get_prop data field of
        Inr (JBool b) \<Rightarrow> True
      | Inr (JNum n) \<Rightarrow> True
      | Inr (JArr xs) \<Rightarrow> True
      | Inr (JObj kvs) \<Rightarrow> True
      | _ \<Rightarrow> False)"

text \<open>What an optional field holds when it is text or left out.\<close>

definition optional_text :: "'n js \<Rightarrow> js_string \<Rightarrow> bool" where
  "optional_text data field =
     (case get_prop data field of
        Inr JUndefined \<Rightarrow> True
      | Inr JNull \<Rightarrow> True
      | Inr (JStr s) \<Rightarrow> True
      | _ \<Rightarrow> False)"

text \<open>
  The parts of an address that the regular expression accepts: not empty, no white
  space and no \<open>@\<close>.
\<close>

definition email_part :: "js_string \<Rightarrow> bool" where
  "email_part p \<longleftrightarrow> p \<noteq> [] \<and> list_all (\<lambda>c. \<not> is_space c \<and> c \<noteq> 0x40) p"

definition email_shape :: "js_string \<Rightarrow> bool" where
  "email_shape s \<longleftrightarrow>
     (\<exists>l d t. s = l @ [0x40] @ d @ [0x2E] @ t \<and> email_part l \<and> email_part d \<and> email_part t)"

text \<open>
  A payload that passes both checks of the handler: the six required fields are
  non-blank strings and the address matches the regular expression.
\<close>

definition valid_payload :: "'n js \<Rightarrow> bool" where
  "valid_payload data \<longleftrightarrow>
     list_all (non_blank_text data) required \<and>
     (case get_prop data (lit ''email'') of Inr (JStr e) \<Rightarrow> regex_test EMAIL_RE e | _ \<Rightarrow> False)"

text \<open>
  The request stops before the provider is involved: it is no \<open>POST\<close>, its body is no
  JSON, the loop over the required fields does not run to its end, or the address does
  not match.
\<close>

definition passes_validation :: "'n host \<Rightarrow> 'n request \<Rightarrow> bool" where
  "passes_validation h request \<longleftrightarrow>
     http_method request = lit ''POST'' \<and>
     (case json request of
        None \<Rightarrow> False
      | Some data \<Rightarrow>
          required_loop h data required = Inr None \<and>
          (case interp h (get_prop data (lit ''email'')) of
             Inl e \<Rightarrow> False
           | Inr email \<Rightarrow> regex_test EMAIL_RE email))"

subsection \<open>The specification's words\<close>

text \<open>
  The specification describes an accepted address as a non-whitespace local part,
  \<open>@\<close>, a non-whitespace domain part, a full stop and a non-whitespace last part;
  \<open>spec_part\<close> is such a part.
\<close>

definition spec_part :: "js_string \<Rightarrow> bool" where
  "spec_part p \<longleftrightarrow> p \<noteq> [] \<and> list_all (\<lambda>c. \<not> is_space c) p"

text \<open>
  The specification echoes an origin that is the canonical site or a subdomain of it.
  Read generously, a subdomain origin is \<open>http://\<close> or \<open>https://\<close>, a non-empty run of
  host-name characters (letters, digits, hyphen, full stop), and
  \<open>.chalet-josephine.com\<close>.
\<close>

fun strip_prefix :: "js_string \<Rightarrow> js_string \<Rightarrow> js_string option" where
  "strip_prefix [] s = Some s"
| "strip_prefix (p # ps) [] = None"
| "strip_prefix (p # ps) (c # cs) = (if p = c then strip_prefix ps cs else None)"

definition strip_suffix :: "js_string \<Rightarrow> js_string \<Rightarrow> js_string option" where
  "strip_suffix suffix s = map_option rev (strip_prefix (rev suffix) (rev s))"

definition host_char :: "16 word \<Rightarrow> bool" where
  "host_char c \<longleftrightarrow>
     (0x61 \<le> c \<and> c \<le> 0x7A) \<or> (0x41 \<le> c \<and> c \<le> 0x5A) \<or> (0x30 \<le> c \<and> c \<le> 0x39)
     \<or> c = 0x2D \<or> c = 0x2E"

definition spec_site_or_subdomain :: "js_string \<Rightarrow> bool" where
  "spec_site_or_subdomain origin \<longleftrightarrow>
     origin = ALLOWED_ORIGIN \<or>
     (case (case strip_prefix (lit ''https://'') origin of
              Some rest \<Rightarrow> Some rest
            | None \<Rightarrow> strip_prefix (lit ''http://'') origin) of
        None \<Rightarrow> False
      | Some host \<Rightarrow>
          (case strip_suffix (lit ''.chalet-josephine.com'') host of
             None \<Rightarrow> False
           | Some sub \<Rightarrow> sub \<noteq> [] \<and> list_all host_char sub))"

section \<open>Sample inputs\<close>

text \<open>
  A deployment without settings and one with an API key, an untouched world, two answers
  of a provider, a provider that gives every call the same answer, and one that accepts
  the first call and answers the later ones with a given response.
\<close>

definition no_env :: env where
  "no_env = \<lparr>TO_EMAIL = None, RESEND_API_KEY = None\<rparr>"

definition key_env :: env where
  "key_env = \<lparr>TO_EMAIL = None, RESEND_API_KEY = Some (lit ''re_test'')\<rparr>"

definition fresh_world :: "int world" where
  "fresh_world = \<lparr>sent = [], console = [], bodyUsed = False\<rparr>"

definition unavailable :: upstream where
  "unavailable = \<lparr>up_status = 503, up_text = lit ''unavailable''\<rparr>"

definition accepted :: upstream where
  "accepted = \<lparr>up_status = 202, up_text = []\<rparr>"

definition answer_always :: "upstream \<Rightarrow> int provider" where
  "answer_always r = (\<lambda>earlier q. Resolved r)"

definition accept_then :: "upstream \<Rightarrow> int provider" where
  "accept_then r =
     (\<lambda>earlier q. if earlier = [] then Resolved accepted else Resolved r)"

text \<open>A provider that accepts the first call and lets every later \<open>fetch\<close> reject.\<close>

definition accept_then_reject :: "int provider" where
  "accept_then_reject = (\<lambda>earlier q. if earlier = [] then Resolved accepted else Rejected)"

definition post_with :: "int js \<Rightarrow> int request" where
  "post_with data = \<lparr>http_method = lit ''POST'', origin_header = None, json = Some data\<rparr>"

definition enquiry_with :: "int js \<Rightarrow> int js \<Rightarrow> int js" where
  "enquiry_with email guests =
     JObj [(lit ''first_name'', JStr (lit ''Ada'')),
           (lit ''last_name'', JStr (lit ''Byron'')),
           (lit ''email'', email),
           (lit ''arrival_date'', JStr (lit ''2026-02-07'')),
           (lit ''departure_date'', JStr (lit ''2026-02-14'')),
           (lit ''guests'', guests)]"

definition sample_enquiry :: "int js" where
  "sample_enquiry = enquiry_with (JStr (lit ''ada@example.com'')) (JStr (lit ''4''))"

definition foreign_origin :: js_string where
  "foreign_origin = lit ''https://attacker.example/.chalet-josephine.com''"

definition preflight_from :: "js_string option \<Rightarrow> int request" where
  "preflight_from origin = \<lparr>http_method = lit ''OPTIONS'', origin_header = origin, json = None\<rparr>"

section \<open>Strings and the regular expression\<close>

lemma lit_Nil [simp]: "lit [] = []"
  by (simp add: lit_def)

lemma lit_Cons: "lit (c # s) = word_of_nat (of_char c) # lit s"
  by (simp add: lit_def)

lemma length_lit [simp]: "length (lit s) = length s"
  by (simp add: lit_def)

lemma char_unit_inj: "(word_of_nat (of_char a) :: 16 word) = word_of_nat (of_char b) \<longleftrightarrow> a = b"
proof -
  have a: "(of_char a :: nat) < 2 ^ 16"
    by (rule less_trans [of _ 256]) simp_all
  have b: "(of_char b :: nat) < 2 ^ 16"
    by (rule less_trans [of _ 256]) simp_all
  have "(word_of_nat (of_char a) :: 16 word) = word_of_nat (of_char b) \<longleftrightarrow>
        (of_char a :: nat) = of_char b"
    using a b by (simp add: word_of_nat_eq_iff take_bit_nat_eq_self)
  then show ?thesis by simp
qed

lemma lit_eq_iff [simp]: "lit a = lit b \<longleftrightarrow> a = b"
proof (induction a arbitrary: b)
  case Nil
  then show ?case by (cases b) (simp_all add: lit_def)
next
  case (Cons c a)
  then show ?case by (cases b) (simp_all add: lit_Cons char_unit_inj)
qed

lemma lit_eq_Nil_iff [simp]: "lit s = [] \<longleftrightarrow> s = []"
  by (simp add: lit_def)

lemma regex_test_Once:
  "regex_test (Once a # ps) s \<longleftrightarrow> (\<exists>c v. s = c # v \<and> atom_matches a c \<and> regex_test ps v)"
  by (cases s) auto

lemma regex_test_OneOrMore:
  "regex_test (OneOrMore a # ps) s \<longleftrightarrow>
     (\<exists>u v. s = u @ v \<and> u \<noteq> [] \<and> list_all (atom_matches a) u \<and> regex_test ps v)"
proof (induction s)
  case Nil
  then show ?case by simp
next
  case (Cons c cs)
  show ?case
  proof
    assume "regex_test (OneOrMore a # ps) (c # cs)"
    then have c: "atom_matches a c"
      and rest: "regex_test (OneOrMore a # ps) cs \<or> regex_test ps cs" by auto
    from rest show "\<exists>u v. c # cs = u @ v \<and> u \<noteq> [] \<and> list_all (atom_matches a) u \<and> regex_test ps v"
    proof
      assume "regex_test (OneOrMore a # ps) cs"
      with Cons.IH obtain u v where "cs = u @ v" "list_all (atom_matches a) u" "regex_test ps v"
        by blast
      with c have "c # cs = (c # u) @ v \<and> c # u \<noteq> [] \<and> list_all (atom_matches a) (c # u) \<and> regex_test ps v"
        by simp
      then show ?thesis by blast
    next
      assume "regex_test ps cs"
      with c have "c # cs = [c] @ cs \<and> [c] \<noteq> [] \<and> list_all (atom_matches a) [c] \<and> regex_test ps cs"
        by simp
      then show ?thesis by blast
    qed
  next
    assume "\<exists>u v. c # cs = u @ v \<and> u \<noteq> [] \<and> list_all (atom_matches a) u \<and> regex_test ps v"
    then obtain u v where uv: "c # cs = u @ v" "u \<noteq> []" "list_all (atom_matches a) u" "regex_test ps v"
      by blast
    then obtain u' where u: "u = c # u'" by (cases u) auto
    with uv have cs: "cs = u' @ v" and c: "atom_matches a c" and u': "list_all (atom_matches a) u'"
      by auto
    show "regex_test (OneOrMore a # ps) (c # cs)"
    proof (cases "u' = []")
      case True
      with cs uv c show ?thesis by simp
    next
      case False
      with cs u' uv have "regex_test (OneOrMore a # ps) cs" using Cons.IH by blast
      with c show ?thesis by simp
    qed
  qed
qed

lemma EMAIL_RE_shape: "regex_test EMAIL_RE s \<longleftrightarrow> email_shape s"
  unfolding EMAIL_RE_def regex_test_OneOrMore regex_test_Once email_shape_def email_part_def
  apply (simp add: list_all_iff)
  apply (rule iffI)
   apply (elim exE conjE)
   apply fastforce
  apply (elim exE conjE)
  apply fastforce
  done

section \<open>The loop over the required fields\<close>

lemma required_loop_skip:
  "list_all (non_blank_text data) pre \<Longrightarrow>
   required_loop h data (pre @ rest) = required_loop h data rest"
  by (induction pre)
     (auto simp: non_blank_text_def bind_exn_def split: sum.splits js.splits)

lemma required_loop_blank:
  "blank_or_missing data field \<Longrightarrow> required_loop h data (field # rest) = Inr (Some field)"
  by (auto simp: blank_or_missing_def bind_exn_def split: sum.splits js.splits)

lemma required_loop_not_text:
  "not_text data field \<Longrightarrow> required_loop h data (field # rest) = Inl TypeError"
  by (auto simp: not_text_def bind_exn_def split: sum.splits js.splits)

lemma required_loop_passes:
  "list_all (non_blank_text data) fs \<Longrightarrow> required_loop h data fs = Inr None"
  using required_loop_skip [of data fs h "[]"] by simp

lemma required_loop_passes_iff:
  "required_loop h data fs = Inr None \<longleftrightarrow> list_all (non_blank_text data) fs"
proof (induction fs)
  case Nil
  then show ?case by simp
next
  case (Cons f fs)
  then show ?case
    by (cases "get_prop data f")
       (auto simp: non_blank_text_def bind_exn_def split: js.splits)
qed

lemma valid_payload_email:
  "valid_payload data \<Longrightarrow> \<exists>e. get_prop data (lit ''email'') = Inr (JStr e) \<and> regex_test EMAIL_RE e"
  by (auto simp: valid_payload_def split: sum.splits js.splits)

lemma passes_validation_iff:
  "passes_validation h request \<longleftrightarrow>
     http_method request = lit ''POST'' \<and> (\<exists>data. json request = Some data \<and> valid_payload data)"
proof (cases "json request")
  case None
  then show ?thesis by (simp add: passes_validation_def)
next
  case (Some data)
  have "list_all (non_blank_text data) required \<Longrightarrow>
        \<exists>e. get_prop data (lit ''email'') = Inr (JStr e)"
    by (auto simp: required_def non_blank_text_def split: sum.splits js.splits)
  then show ?thesis
    using Some
    by (auto simp: passes_validation_def valid_payload_def required_loop_passes_iff interp_def
          bind_exn_def)
qed

section \<open>The two handlers, stage by stage\<close>

lemma method_POST_not_OPTIONS [simp]: "lit ''POST'' \<noteq> lit ''OPTIONS''"
  by simp

lemma corsHeaders_origin:
  "map_of (corsHeaders request) (lit ''Access-Control-Allow-Origin'') =
     Some (case origin_header request of
             None \<Rightarrow> ALLOWED_ORIGIN
           | Some origin \<Rightarrow>
               if origin = ALLOWED_ORIGIN \<or> endsWith origin (lit ''.chalet-josephine.com'')
               then origin else ALLOWED_ORIGIN)"
  by (auto simp: corsHeaders_def Let_def endsWith_def ALLOWED_ORIGIN_def split: option.splits)

lemma jsonResponse_origin:
  "map_of (res_headers (jsonResponse body status request)) (lit ''Access-Control-Allow-Origin'') =
     map_of (corsHeaders request) (lit ''Access-Control-Allow-Origin'')"
  by (simp add: jsonResponse_def)

lemma fetch_mailchannels_responses:
  "fst (fetch_mailchannels h env provider request w) = Inr resp \<Longrightarrow>
   res_headers resp = corsHeaders request \<or> (\<exists>body status. resp = jsonResponse body status request)"
  unfolding fetch_mailchannels_def request_json_def http_fetch_def
  by (auto split: if_splits option.splits sum.splits prod.splits fetch_outcome.splits)

lemma fetch_resend_responses:
  "fst (fetch_resend h env provider request w) = Inr resp \<Longrightarrow>
   res_headers resp = corsHeaders request \<or> (\<exists>body status. resp = jsonResponse body status request)"
  unfolding fetch_resend_def request_json_def http_fetch_def
  by (auto split: if_splits option.splits sum.splits prod.splits fetch_outcome.splits)

lemma valid_payload_checks:
  assumes "valid_payload data"
  obtains e where "required_loop h data required = Inr None"
    and "interp h (get_prop data (lit ''email'')) = Inr e" and "regex_test EMAIL_RE e"
proof -
  from assms obtain e where e: "get_prop data (lit ''email'') = Inr (JStr e)" "regex_test EMAIL_RE e"
    using valid_payload_email by blast
  from assms have "required_loop h data required = Inr None"
    by (simp add: valid_payload_def required_loop_passes)
  moreover from e have "interp h (get_prop data (lit ''email'')) = Inr e"
    by (simp add: interp_def bind_exn_def)
  ultimately show thesis using e that by blast
qed

lemma fetch_mailchannels_first_fails:
  assumes "http_method request = lit ''POST''" and "json request = Some data" and "valid_payload data"
    and "mailchannels_enquiry h (toEmail env) data = Inr q"
    and "provider (sent w) q = Resolved r" and "\<not> ok r"
  shows "fetch_mailchannels h env provider request w =
           (Inr (jsonResponse
              (JObj [(lit ''error'',
                      JStr (lit ''Failed to send enquiry. Please try again or contact us directly.''))])
              500 request),
            w\<lparr>bodyUsed := True, sent := sent w @ [q],
              console := console w @ [[lit ''MailChannels error:'', up_text r]]\<rparr>)"
proof -
  from assms(3) obtain e where "required_loop h data required = Inr None"
    and "interp h (get_prop data (lit ''email'')) = Inr e" and "regex_test EMAIL_RE e"
    by (rule valid_payload_checks)
  with assms show ?thesis
    by (simp add: fetch_mailchannels_def request_json_def http_fetch_def console_error_def)
qed

lemma fetch_resend_first_fails:
  assumes "http_method request = lit ''POST''" and "json request = Some data" and "valid_payload data"
    and "RESEND_API_KEY env = Some apiKey" and "apiKey \<noteq> []"
    and "resend_enquiry h apiKey (toEmail env) data = Inr q"
    and "provider (sent w) q = Resolved r" and "\<not> ok r"
  shows "fetch_resend h env provider request w =
           (Inr (jsonResponse
              (JObj [(lit ''error'',
                      JStr (lit ''Failed to send enquiry. Please try again or contact us directly.''))])
              500 request),
            w\<lparr>bodyUsed := True, sent := sent w @ [q],
              console := console w @ [[lit ''Resend error:'', up_text r]]\<rparr>)"
proof -
  from assms(3) obtain e where "required_loop h data required = Inr None"
    and "interp h (get_prop data (lit ''email'')) = Inr e" and "regex_test EMAIL_RE e"
    by (rule valid_payload_checks)
  with assms show ?thesis
    by (simp add: fetch_resend_def request_json_def http_fetch_def console_error_def)
qed

lemma fetch_mailchannels_two_sends:
  assumes "http_method request = lit ''POST''" and "json request = Some data" and "valid_payload data"
    and "mailchannels_enquiry h (toEmail env) data = Inr q1"
    and "provider (sent w) q1 = Resolved r1" and "ok r1"
    and "mailchannels_confirmation h data = Inr q2"
    and "provider (sent w @ [q1]) q2 = Resolved r2"
  shows "fetch_mailchannels h env provider request w =
           (Inr (jsonResponse
              (JObj [(lit ''success'', JBool True),
                     (lit ''message'', JStr (lit ''Enquiry received. We will respond within 24 hours.''))])
              200 request),
            w\<lparr>bodyUsed := True, sent := sent w @ [q1, q2]\<rparr>)"
proof -
  from assms(3) obtain e where "required_loop h data required = Inr None"
    and "interp h (get_prop data (lit ''email'')) = Inr e" and "regex_test EMAIL_RE e"
    by (rule valid_payload_checks)
  with assms show ?thesis
    by (simp add: fetch_mailchannels_def request_json_def http_fetch_def)
qed

lemma fetch_resend_two_sends:
  assumes "http_method request = lit ''POST''" and "json request = Some data" and "valid_payload data"
    and "RESEND_API_KEY env = Some apiKey" and "apiKey \<noteq> []"
    and "resend_enquiry h apiKey (toEmail env) data = Inr q1"
    and "provider (sent w) q1 = Resolved r1" and "ok r1"
    and "resend_confirmation h apiKey data = Inr q2"
    and "provider (sent w @ [q1]) q2 = Resolved r2"
  shows "fetch_resend h env provider request w =
           (Inr (jsonResponse
              (JObj [(lit ''success'', JBool True),
                     (lit ''message'', JStr (lit ''Enquiry received. We will respond within 24 hours.''))])
              200 request),
            w\<lparr>bodyUsed := True, sent := sent w @ [q1, q2]\<rparr>)"
proof -
  from assms(3) obtain e where "required_loop h data required = Inr None"
    and "interp h (get_prop data (lit ''email'')) = Inr e" and "regex_test EMAIL_RE e"
    by (rule valid_payload_checks)
  with assms show ?thesis
    by (simp add: fetch_resend_def request_json_def http_fetch_def)
qed

lemma fetch_mailchannels_second_rejects:
  assumes "http_method request = lit ''POST''" and "json request = Some data" and "valid_payload data"
    and "mailchannels_enquiry h (toEmail env) data = Inr q1"
    and "provider (sent w) q1 = Resolved r1" and "ok r1"
    and "mailchannels_confirmation h data = Inr q2"
    and "provider (sent w @ [q1]) q2 = Rejected"
  shows "fetch_mailchannels h env provider request w =
           (Inl NetworkError, w\<lparr>bodyUsed := True, sent := sent w @ [q1, q2]\<rparr>)"
proof -
  from assms(3) obtain e where "required_loop h data required = Inr None"
    and "interp h (get_prop data (lit ''email'')) = Inr e" and "regex_test EMAIL_RE e"
    by (rule valid_payload_checks)
  with assms show ?thesis
    by (simp add: fetch_mailchannels_def request_json_def http_fetch_def)
qed

lemma fetch_resend_second_rejects:
  assumes "http_method request = lit ''POST''" and "json request = Some data" and "valid_payload data"
    and "RESEND_API_KEY env = Some apiKey" and "apiKey \<noteq> []"
    and "resend_enquiry h apiKey (toEmail env) data = Inr q1"
    and "provider (sent w) q1 = Resolved r1" and "ok r1"
    and "resend_confirmation h apiKey data = Inr q2"
    and "provider (sent w @ [q1]) q2 = Rejected"
  shows "fetch_resend h env provider request w =
           (Inl NetworkError, w\<lparr>bodyUsed := True, sent := sent w @ [q1, q2]\<rparr>)"
proof -
  from assms(3) obtain e where "required_loop h data required = Inr None"
    and "interp h (get_prop data (lit ''email'')) = Inr e" and "regex_test EMAIL_RE e"
    by (rule valid_payload_checks)
  with assms show ?thesis
    by (simp add: fetch_resend_def request_json_def http_fetch_def)
qed

section \<open>The outbound calls of a valid payload\<close>

text \<open>
  The confirmation is built from validated fields only and always renders. The enquiry
  also formats \<open>phone\<close> and \<open>message\<close>, which no check has looked at; it renders
  whenever those two are strings, \<open>null\<close> or absent.
\<close>

lemma optional_text_interp:
  "optional_text data field \<Longrightarrow> \<exists>s. interp h (or_else h (get_prop data field) (JStr d)) = Inr s"
  by (auto simp: optional_text_def interp_def or_else_def bind_exn_def split: sum.splits js.splits)

lemma valid_payload_fields:
  assumes "valid_payload data"
  shows "\<exists>a b c d e f. 
     get_prop data (lit ''first_name'') = Inr (JStr a) \<and>
     get_prop data (lit ''last_name'') = Inr (JStr b) \<and>
     get_prop data (lit ''email'') = Inr (JStr c) \<and>
     get_prop data (lit ''arrival_date'') = Inr (JStr d) \<and>
     get_prop data (lit ''departure_date'') = Inr (JStr e) \<and>
     get_prop data (lit ''guests'') = Inr (JStr f)"
  using assms
  by (simp add: valid_payload_def required_def non_blank_text_def split: sum.splits js.splits)

lemma confirmation_renders:
  assumes "valid_payload data"
  shows "(\<exists>q. mailchannels_confirmation h data = Inr q) \<and> (\<exists>q. resend_confirmation h apiKey data = Inr q)"
proof -
  from valid_payload_fields [OF assms] obtain a b c d e f where
     "get_prop data (lit ''first_name'') = Inr (JStr a)"
     "get_prop data (lit ''last_name'') = Inr (JStr b)"
     "get_prop data (lit ''email'') = Inr (JStr c)"
     "get_prop data (lit ''arrival_date'') = Inr (JStr d)"
     "get_prop data (lit ''departure_date'') = Inr (JStr e)"
     "get_prop data (lit ''guests'') = Inr (JStr f)"
    by blast
  then show ?thesis
    by (simp add: mailchannels_confirmation_def resend_confirmation_def buildConfirmationHtml_def
        interp_def quasi_def bind_exn_def)
qed

lemma enquiry_renders:
  assumes "valid_payload data" and "optional_text data (lit ''phone'')"
    and "optional_text data (lit ''message'')"
  shows "(\<exists>q. mailchannels_enquiry h recipient data = Inr q) \<and>
         (\<exists>q. resend_enquiry h apiKey recipient data = Inr q)"
proof -
  from valid_payload_fields [OF assms(1)] obtain a b c d e f where
     "get_prop data (lit ''first_name'') = Inr (JStr a)"
     "get_prop data (lit ''last_name'') = Inr (JStr b)"
     "get_prop data (lit ''email'') = Inr (JStr c)"
     "get_prop data (lit ''arrival_date'') = Inr (JStr d)"
     "get_prop data (lit ''departure_date'') = Inr (JStr e)"
     "get_prop data (lit ''guests'') = Inr (JStr f)"
    by blast
  moreover from assms(2) obtain p where
    "interp h (or_else h (get_prop data (lit ''phone'')) (JStr (lit ''Not provided''))) = Inr p"
    using optional_text_interp by blast
  moreover from assms(3) obtain m where
    "interp h (or_else h (get_prop data (lit ''message'')) (JStr (lit ''No message provided''))) = Inr m"
    using optional_text_interp by blast
  ultimately show ?thesis
    by (simp add: mailchannels_enquiry_def resend_enquiry_def buildEmailHtml_def
        interp_def quasi_def bind_exn_def)
qed

section \<open>The claims\<close>

subsection \<open>C8: the preflight request\<close>

text \<open>
  C8. A request whose method is \<open>OPTIONS\<close> gets, from either worker, a response with
  status 200, no body and exactly the CORS headers. Nothing else happens: the world is
  returned as it was (the body is not read, nothing is sent), and the \<open>json\<close> field of
  the request plays no part in the result, whatever it holds.
\<close>

theorem preflight_only_cors:
  "http_method request = lit ''OPTIONS'' \<Longrightarrow>
   fetch_mailchannels h env provider request w =
     (Inr \<lparr>res_status = 200, res_headers = corsHeaders request, res_body = None\<rparr>, w) \<and>
   fetch_resend h env provider request w =
     (Inr \<lparr>res_status = 200, res_headers = corsHeaders request, res_body = None\<rparr>, w)"
  by (simp add: fetch_mailchannels_def fetch_resend_def)

theorem preflight_only_cors_witness:
  "http_method (preflight_from None) = lit ''OPTIONS'' \<and>
   fetch_mailchannels integer_host no_env (answer_always unavailable) (preflight_from None) fresh_world =
     (Inr \<lparr>res_status = 200,
           res_headers = [(lit ''Access-Control-Allow-Origin'', lit ''https://www.chalet-josephine.com''),
                          (lit ''Access-Control-Allow-Methods'', lit ''POST, OPTIONS''),
                          (lit ''Access-Control-Allow-Headers'', lit ''Content-Type'')],
           res_body = None\<rparr>, fresh_world)"
  using preflight_only_cors [of "preflight_from None" integer_host no_env
      "answer_always unavailable" fresh_world]
  by (simp add: preflight_from_def corsHeaders_def ALLOWED_ORIGIN_def endsWith_def)

subsection \<open>C1: the first missing field\<close>

text \<open>
  C1, as amended. Take a \<open>POST\<close> request whose body parses to \<open>data\<close>, and a required
  field \<open>field\<close> such that every required field before it holds a string that is not
  blank after trimming, while \<open>field\<close> itself is absent, \<open>null\<close> or a string that is
  blank after trimming. Then both workers answer 400 with the body
  \<open>{error: "Missing required field: <field>"}\<close>, whatever the later fields hold,
  and nothing is sent. (The claim as written has no condition on the earlier fields and
  on the body being an object; see the counterexample.)
\<close>

theorem missing_field_reported:
  assumes "http_method request = lit ''POST''" and "json request = Some data"
    and "required = pre @ field # post"
    and "list_all (non_blank_text data) pre"
    and "blank_or_missing data field"
  shows "fetch_mailchannels h env provider request w =
           (Inr (jsonResponse (JObj [(lit ''error'', JStr (lit ''Missing required field: '' @ field))])
                   400 request), w\<lparr>bodyUsed := True\<rparr>) \<and>
         fetch_resend h env provider request w =
           (Inr (jsonResponse (JObj [(lit ''error'', JStr (lit ''Missing required field: '' @ field))])
                   400 request), w\<lparr>bodyUsed := True\<rparr>)"
proof -
  have "required_loop h data (pre @ field # post) = Inr (Some field)"
    using assms(4,5) by (simp only: required_loop_skip required_loop_blank)
  then have "required_loop h data required = Inr (Some field)"
    by (simp only: assms(3))
  then show ?thesis
    using assms(1,2) by (simp add: fetch_mailchannels_def fetch_resend_def request_json_def)
qed

theorem missing_field_reported_witness:
  "http_method (post_with (enquiry_with (JStr (lit ''  '')) (JStr (lit ''4'')))) = lit ''POST'' \<and>
   json (post_with (enquiry_with (JStr (lit ''  '')) (JStr (lit ''4'')))) =
     Some (enquiry_with (JStr (lit ''  '')) (JStr (lit ''4''))) \<and>
   required = [lit ''first_name'', lit ''last_name''] @ lit ''email'' #
                [lit ''arrival_date'', lit ''departure_date'', lit ''guests''] \<and>
   list_all (non_blank_text (enquiry_with (JStr (lit ''  '')) (JStr (lit ''4''))))
     [lit ''first_name'', lit ''last_name''] \<and>
   blank_or_missing (enquiry_with (JStr (lit ''  '')) (JStr (lit ''4''))) (lit ''email'') \<and>
   fetch_mailchannels integer_host no_env (answer_always unavailable)
       (post_with (enquiry_with (JStr (lit ''  '')) (JStr (lit ''4'')))) fresh_world =
     (Inr (jsonResponse (JObj [(lit ''error'', JStr (lit ''Missing required field: '' @ lit ''email''))])
             400 (post_with (enquiry_with (JStr (lit ''  '')) (JStr (lit ''4''))))),
      fresh_world\<lparr>bodyUsed := True\<rparr>)"
proof -
  have m: "http_method (post_with (enquiry_with (JStr (lit ''  '')) (JStr (lit ''4'')))) = lit ''POST''"
    by (simp add: post_with_def)
  have j: "json (post_with (enquiry_with (JStr (lit ''  '')) (JStr (lit ''4'')))) =
             Some (enquiry_with (JStr (lit ''  '')) (JStr (lit ''4'')))"
    by (simp add: post_with_def)
  have r: "required = [lit ''first_name'', lit ''last_name''] @ lit ''email'' #
                [lit ''arrival_date'', lit ''departure_date'', lit ''guests'']"
    by (simp add: required_def)
  have p: "list_all (non_blank_text (enquiry_with (JStr (lit ''  '')) (JStr (lit ''4''))))
     [lit ''first_name'', lit ''last_name'']"
    by code_simp
  have b: "blank_or_missing (enquiry_with (JStr (lit ''  '')) (JStr (lit ''4''))) (lit ''email'')"
    by code_simp
  show ?thesis
    using m j r p b
      missing_field_reported [OF m j r p b, of integer_host no_env "answer_always unavailable" fresh_world]
    by blast
qed

text \<open>
  The claim as written fails. A body that is the JSON value \<open>null\<close> has none of the six
  fields, and a body \<open>{"first_name": 7}\<close> has no \<open>last_name\<close>; on both the loop throws
  a TypeError at \<open>first_name\<close>, so neither worker returns a 400 response.
\<close>

theorem missing_field_counterexample:
  "fst (fetch_mailchannels integer_host no_env (answer_always unavailable) (post_with JNull) fresh_world) =
     Inl TypeError \<and>
   fst (fetch_resend integer_host no_env (answer_always unavailable) (post_with JNull) fresh_world) =
     Inl TypeError \<and>
   blank_or_missing (JObj [(lit ''first_name'', JNum (7::int))]) (lit ''last_name'') \<and>
   fst (fetch_mailchannels integer_host no_env (answer_always unavailable)
          (post_with (JObj [(lit ''first_name'', JNum 7)])) fresh_world) = Inl TypeError \<and>
   fst (fetch_resend integer_host no_env (answer_always unavailable)
          (post_with (JObj [(lit ''first_name'', JNum 7)])) fresh_world) = Inl TypeError"
  by code_simp

subsection \<open>C9: a required field that is not a string\<close>

text \<open>
  C9. Take a \<open>POST\<close> request whose body parses to \<open>data\<close>. If some required field
  holds a number, a boolean, an array or an object, and every required field before it
  holds a non-blank string, then \<open>data[field]?.trim()\<close> throws: both workers end with a
  TypeError instead of a response, having read the body and sent nothing. Conversely the
  loop never throws on a body \<open>data'\<close> whose required fields are each a string, \<open>null\<close>
  or absent. The witness is the claim's own example, all six fields present and
  \<open>guests\<close> the number 4.
\<close>

theorem non_string_field_throws:
  "(http_method request = lit ''POST'' \<and> json request = Some data \<and> required = pre @ field # post \<and>
    list_all (non_blank_text data) pre \<and> not_text data field \<longrightarrow>
      fetch_mailchannels h env provider request w = (Inl TypeError, w\<lparr>bodyUsed := True\<rparr>) \<and>
      fetch_resend h env provider request w = (Inl TypeError, w\<lparr>bodyUsed := True\<rparr>)) \<and>
   (list_all (\<lambda>f. non_blank_text data' f \<or> blank_or_missing data' f) required \<longrightarrow>
      (\<exists>r. required_loop h data' required = Inr r))"
proof (intro conjI impI)
  assume a: "http_method request = lit ''POST'' \<and> json request = Some data \<and> required = pre @ field # post \<and>
    list_all (non_blank_text data) pre \<and> not_text data field"
  then have r: "required = pre @ field # post" and p: "list_all (non_blank_text data) pre"
    and n: "not_text data field"
    by blast+
  from p n have "required_loop h data (pre @ field # post) = Inl TypeError"
    by (simp only: required_loop_skip required_loop_not_text)
  then have loop: "required_loop h data required = Inl TypeError"
    by (simp only: r)
  from a loop show "fetch_mailchannels h env provider request w = (Inl TypeError, w\<lparr>bodyUsed := True\<rparr>)"
    by (simp add: fetch_mailchannels_def request_json_def)
  from a loop show "fetch_resend h env provider request w = (Inl TypeError, w\<lparr>bodyUsed := True\<rparr>)"
    by (simp add: fetch_resend_def request_json_def)
next
  have "list_all (\<lambda>f. non_blank_text data' f \<or> blank_or_missing data' f) fs \<Longrightarrow>
        \<exists>r. required_loop h data' fs = Inr r" for fs
    by (induction fs)
       (auto simp: non_blank_text_def blank_or_missing_def bind_exn_def split: sum.splits js.splits)
  then show "list_all (\<lambda>f. non_blank_text data' f \<or> blank_or_missing data' f) required \<Longrightarrow>
      \<exists>r. required_loop h data' required = Inr r" .
qed

theorem non_string_field_throws_witness:
  "(http_method (post_with (enquiry_with (JStr (lit ''ada@example.com'')) (JNum 4))) = lit ''POST'' \<and>
    json (post_with (enquiry_with (JStr (lit ''ada@example.com'')) (JNum 4))) =
      Some (enquiry_with (JStr (lit ''ada@example.com'')) (JNum 4)) \<and>
    required = [lit ''first_name'', lit ''last_name'', lit ''email'', lit ''arrival_date'',
                lit ''departure_date''] @ lit ''guests'' # [] \<and>
    list_all (non_blank_text (enquiry_with (JStr (lit ''ada@example.com'')) (JNum 4)))
      [lit ''first_name'', lit ''last_name'', lit ''email'', lit ''arrival_date'', lit ''departure_date''] \<and>
    not_text (enquiry_with (JStr (lit ''ada@example.com'')) (JNum 4)) (lit ''guests'')) \<and>
   fetch_mailchannels integer_host no_env (answer_always accepted)
       (post_with (enquiry_with (JStr (lit ''ada@example.com'')) (JNum 4))) fresh_world =
     (Inl TypeError, fresh_world\<lparr>bodyUsed := True\<rparr>) \<and>
   fetch_resend integer_host key_env (answer_always accepted)
       (post_with (enquiry_with (JStr (lit ''ada@example.com'')) (JNum 4))) fresh_world =
     (Inl TypeError, fresh_world\<lparr>bodyUsed := True\<rparr>) \<and>
   list_all (\<lambda>f. non_blank_text sample_enquiry f \<or> blank_or_missing sample_enquiry f) required \<and>
   (\<exists>r. required_loop integer_host sample_enquiry required = Inr r)"
proof -
  have a: "http_method (post_with (enquiry_with (JStr (lit ''ada@example.com'')) (JNum 4))) = lit ''POST'' \<and>
    json (post_with (enquiry_with (JStr (lit ''ada@example.com'')) (JNum 4))) =
      Some (enquiry_with (JStr (lit ''ada@example.com'')) (JNum 4)) \<and>
    required = [lit ''first_name'', lit ''last_name'', lit ''email'', lit ''arrival_date'',
                lit ''departure_date''] @ lit ''guests'' # [] \<and>
    list_all (non_blank_text (enquiry_with (JStr (lit ''ada@example.com'')) (JNum 4)))
      [lit ''first_name'', lit ''last_name'', lit ''email'', lit ''arrival_date'', lit ''departure_date''] \<and>
    not_text (enquiry_with (JStr (lit ''ada@example.com'')) (JNum 4)) (lit ''guests'')"
    by code_simp
  have b: "list_all (\<lambda>f. non_blank_text sample_enquiry f \<or> blank_or_missing sample_enquiry f) required"
    by code_simp
  show ?thesis
    using a b
      non_string_field_throws [where request = "post_with (enquiry_with (JStr (lit ''ada@example.com'')) (JNum 4))"
        and data = "enquiry_with (JStr (lit ''ada@example.com'')) (JNum 4)"
        and pre = "[lit ''first_name'', lit ''last_name'', lit ''email'', lit ''arrival_date'',
                    lit ''departure_date'']"
        and field = "lit ''guests''" and post = "[]" and h = integer_host and env = no_env
        and provider = "answer_always accepted" and w = fresh_world and data' = sample_enquiry]
      non_string_field_throws [where request = "post_with (enquiry_with (JStr (lit ''ada@example.com'')) (JNum 4))"
        and data = "enquiry_with (JStr (lit ''ada@example.com'')) (JNum 4)"
        and pre = "[lit ''first_name'', lit ''last_name'', lit ''email'', lit ''arrival_date'',
                    lit ''departure_date'']"
        and field = "lit ''guests''" and post = "[]" and h = integer_host and env = key_env
        and provider = "answer_always accepted" and w = fresh_world and data' = sample_enquiry]
    by blast
qed

subsection \<open>C10: the two workers before any outbound call\<close>

text \<open>
  C10. On a request that does not get through validation (the preflight, a method other
  than \<open>POST\<close>, a body that is no JSON, a required field that stops the loop, an
  address that does not match) the MailChannels worker and the Resend worker return the
  same result and leave the same world, whatever their environments and providers are,
  and no outbound call has been made.
\<close>

theorem variants_agree_before_sending:
  assumes "\<not> passes_validation h request"
  shows "fetch_mailchannels h env provider request w = fetch_resend h env' provider' request w \<and>
         sent (snd (fetch_mailchannels h env provider request w)) = sent w"
  using assms
  by (auto simp: passes_validation_def fetch_mailchannels_def fetch_resend_def request_json_def
           split: option.splits sum.splits)

theorem variants_agree_before_sending_witness:
  "\<not> passes_validation integer_host (post_with (enquiry_with (JStr (lit ''no-address'')) (JStr (lit ''4'')))) \<and>
   fetch_mailchannels integer_host no_env (answer_always accepted)
       (post_with (enquiry_with (JStr (lit ''no-address'')) (JStr (lit ''4'')))) fresh_world =
   fetch_resend integer_host key_env (answer_always unavailable)
       (post_with (enquiry_with (JStr (lit ''no-address'')) (JStr (lit ''4'')))) fresh_world"
proof -
  have a: "\<not> passes_validation integer_host
             (post_with (enquiry_with (JStr (lit ''no-address'')) (JStr (lit ''4''))))"
    by code_simp
  show ?thesis
    using a variants_agree_before_sending [OF a, of no_env "answer_always accepted" fresh_world
        key_env "answer_always unavailable"]
    by blast
qed

subsection \<open>C2: the origin that is echoed\<close>

text \<open>
  C2, as amended. Every response that either worker returns, on every path, carries the
  header \<open>Access-Control-Allow-Origin\<close>; its value is the request's \<open>Origin\<close> when
  that is the canonical site or any string ending in \<open>.chalet-josephine.com\<close>, and the
  canonical site otherwise, also when the header is absent or empty. (The test is
  \<open>endsWith\<close>: it accepts every subdomain origin, and every other string with that
  suffix as well; see the counterexample.)
\<close>

theorem cors_origin_on_every_response:
  assumes "fst (fetch_mailchannels h env provider request w) = Inr resp \<or>
           fst (fetch_resend h env provider request w) = Inr resp"
  shows "map_of (res_headers resp) (lit ''Access-Control-Allow-Origin'') =
           Some (case origin_header request of
                   None \<Rightarrow> ALLOWED_ORIGIN
                 | Some origin \<Rightarrow>
                     if origin = ALLOWED_ORIGIN \<or> endsWith origin (lit ''.chalet-josephine.com'')
                     then origin else ALLOWED_ORIGIN)"
proof -
  from assms have "res_headers resp = corsHeaders request \<or>
      (\<exists>body status. resp = jsonResponse body status request)"
    using fetch_mailchannels_responses fetch_resend_responses by blast
  then show ?thesis
    using corsHeaders_origin [of request] jsonResponse_origin [of _ _ request] by auto
qed

theorem cors_origin_on_every_response_witness:
  "(fst (fetch_mailchannels integer_host no_env (answer_always accepted)
           (preflight_from (Some (lit ''https://booking.chalet-josephine.com''))) fresh_world) =
      Inr \<lparr>res_status = 200,
            res_headers = corsHeaders (preflight_from (Some (lit ''https://booking.chalet-josephine.com''))),
            res_body = None\<rparr> \<or>
    fst (fetch_resend integer_host no_env (answer_always accepted)
           (preflight_from (Some (lit ''https://booking.chalet-josephine.com''))) fresh_world) =
      Inr \<lparr>res_status = 200,
            res_headers = corsHeaders (preflight_from (Some (lit ''https://booking.chalet-josephine.com''))),
            res_body = None\<rparr>) \<and>
   map_of (corsHeaders (preflight_from (Some (lit ''https://booking.chalet-josephine.com''))))
     (lit ''Access-Control-Allow-Origin'') = Some (lit ''https://booking.chalet-josephine.com'')"
proof -
  have a: "fst (fetch_mailchannels integer_host no_env (answer_always accepted)
           (preflight_from (Some (lit ''https://booking.chalet-josephine.com''))) fresh_world) =
      Inr \<lparr>res_status = 200,
            res_headers = corsHeaders (preflight_from (Some (lit ''https://booking.chalet-josephine.com''))),
            res_body = None\<rparr> \<or>
    fst (fetch_resend integer_host no_env (answer_always accepted)
           (preflight_from (Some (lit ''https://booking.chalet-josephine.com''))) fresh_world) =
      Inr \<lparr>res_status = 200,
            res_headers = corsHeaders (preflight_from (Some (lit ''https://booking.chalet-josephine.com''))),
            res_body = None\<rparr>"
    by (simp add: fetch_mailchannels_def preflight_from_def)
  have b: "endsWith (lit ''https://booking.chalet-josephine.com'') (lit ''.chalet-josephine.com'')"
    by code_simp
  show ?thesis
    using a b cors_origin_on_every_response [OF a]
    by (simp add: preflight_from_def)
qed

text \<open>
  The claim as written fails. The origin \<open>https://attacker.example/.chalet-josephine.com\<close>
  is not the canonical site and no subdomain of it, under the most generous reading of
  those words, and yet the preflight response of either worker echoes it.
\<close>

theorem cors_origin_counterexample:
  "\<not> spec_site_or_subdomain foreign_origin \<and>
   foreign_origin \<noteq> ALLOWED_ORIGIN \<and>
   fst (fetch_mailchannels integer_host no_env (answer_always accepted)
          (preflight_from (Some foreign_origin)) fresh_world) =
     Inr \<lparr>res_status = 200,
           res_headers = [(lit ''Access-Control-Allow-Origin'', foreign_origin),
                          (lit ''Access-Control-Allow-Methods'', lit ''POST, OPTIONS''),
                          (lit ''Access-Control-Allow-Headers'', lit ''Content-Type'')],
           res_body = None\<rparr> \<and>
   fst (fetch_resend integer_host no_env (answer_always accepted)
          (preflight_from (Some foreign_origin)) fresh_world) =
     Inr \<lparr>res_status = 200,
           res_headers = [(lit ''Access-Control-Allow-Origin'', foreign_origin),
                          (lit ''Access-Control-Allow-Methods'', lit ''POST, OPTIONS''),
                          (lit ''Access-Control-Allow-Headers'', lit ''Content-Type'')],
           res_body = None\<rparr>"
  by code_simp

subsection \<open>C4: the shape of the address\<close>

text \<open>
  C4, as amended. Take a \<open>POST\<close> request whose body has the six required fields as
  non-blank strings, with address \<open>e\<close>. The address is accepted exactly when it is a
  local part, \<open>@\<close>, a domain part, a full stop and a last part, each part non-empty and
  free of white space and of \<open>@\<close>: if \<open>e\<close> is not of that shape both workers answer
  400 with \<open>{error: "Invalid email address"}\<close> and send nothing, whatever the other
  fields hold; if it is, neither worker answers 400. (The claim as written lets the
  parts contain \<open>@\<close>; see the counterexample.)
\<close>

theorem email_accepted_iff_shape:
  assumes "http_method request = lit ''POST''" and "json request = Some data"
    and "list_all (non_blank_text data) required"
    and "get_prop data (lit ''email'') = Inr (JStr e)"
  shows "(\<not> email_shape e \<longrightarrow>
            fetch_mailchannels h env provider request w =
              (Inr (jsonResponse (JObj [(lit ''error'', JStr (lit ''Invalid email address''))])
                      400 request), w\<lparr>bodyUsed := True\<rparr>) \<and>
            fetch_resend h env provider request w =
              (Inr (jsonResponse (JObj [(lit ''error'', JStr (lit ''Invalid email address''))])
                      400 request), w\<lparr>bodyUsed := True\<rparr>)) \<and>
         (email_shape e \<longrightarrow>
            (\<forall>resp. fst (fetch_mailchannels h env provider request w) = Inr resp \<longrightarrow>
                    res_status resp \<noteq> 400) \<and>
            (\<forall>resp. fst (fetch_resend h env provider request w) = Inr resp \<longrightarrow>
                    res_status resp \<noteq> 400))"
proof -
  have loop: "required_loop h data required = Inr None"
    using assms(3) by (rule required_loop_passes)
  have email: "interp h (get_prop data (lit ''email'')) = Inr e"
    using assms(4) by (simp add: interp_def bind_exn_def)
  show ?thesis
  proof (cases "email_shape e")
    case False
    then have "\<not> regex_test EMAIL_RE e" by (simp add: EMAIL_RE_shape)
    with False assms(1,2) loop email show ?thesis
      by (simp add: fetch_mailchannels_def fetch_resend_def request_json_def)
  next
    case True
    then have re: "regex_test EMAIL_RE e" by (simp add: EMAIL_RE_shape)
    have mc: "res_status resp \<noteq> 400"
      if "fst (fetch_mailchannels h env provider request w) = Inr resp" for resp
      using that assms(1,2) loop email re
      by (auto simp: fetch_mailchannels_def request_json_def http_fetch_def jsonResponse_def
               split: if_splits sum.splits fetch_outcome.splits)
    have rs: "res_status resp \<noteq> 400"
      if "fst (fetch_resend h env provider request w) = Inr resp" for resp
      using that assms(1,2) loop email re
      by (auto simp: fetch_resend_def request_json_def http_fetch_def jsonResponse_def
               split: if_splits option.splits sum.splits fetch_outcome.splits)
    from True mc rs show ?thesis by blast
  qed
qed

theorem email_accepted_iff_shape_witness:
  "http_method (post_with (enquiry_with (JStr (lit ''ada.example.com'')) (JStr (lit ''4'')))) = lit ''POST'' \<and>
   json (post_with (enquiry_with (JStr (lit ''ada.example.com'')) (JStr (lit ''4'')))) =
     Some (enquiry_with (JStr (lit ''ada.example.com'')) (JStr (lit ''4''))) \<and>
   list_all (non_blank_text (enquiry_with (JStr (lit ''ada.example.com'')) (JStr (lit ''4'')))) required \<and>
   get_prop (enquiry_with (JStr (lit ''ada.example.com'')) (JStr (lit ''4''))) (lit ''email'') =
     Inr (JStr (lit ''ada.example.com'')) \<and>
   \<not> email_shape (lit ''ada.example.com'') \<and>
   fetch_mailchannels integer_host no_env (answer_always accepted)
       (post_with (enquiry_with (JStr (lit ''ada.example.com'')) (JStr (lit ''4'')))) fresh_world =
     (Inr (jsonResponse (JObj [(lit ''error'', JStr (lit ''Invalid email address''))]) 400
             (post_with (enquiry_with (JStr (lit ''ada.example.com'')) (JStr (lit ''4''))))),
      fresh_world\<lparr>bodyUsed := True\<rparr>)"
proof -
  have m: "http_method (post_with (enquiry_with (JStr (lit ''ada.example.com'')) (JStr (lit ''4'')))) =
             lit ''POST''"
    by (simp add: post_with_def)
  have j: "json (post_with (enquiry_with (JStr (lit ''ada.example.com'')) (JStr (lit ''4'')))) =
             Some (enquiry_with (JStr (lit ''ada.example.com'')) (JStr (lit ''4'')))"
    by (simp add: post_with_def)
  have r: "list_all (non_blank_text (enquiry_with (JStr (lit ''ada.example.com'')) (JStr (lit ''4''))))
             required"
    by code_simp
  have g: "get_prop (enquiry_with (JStr (lit ''ada.example.com'')) (JStr (lit ''4''))) (lit ''email'') =
             Inr (JStr (lit ''ada.example.com''))"
    by code_simp
  have "\<not> regex_test EMAIL_RE (lit ''ada.example.com'')"
    by code_simp
  then have s: "\<not> email_shape (lit ''ada.example.com'')"
    by (simp add: EMAIL_RE_shape)
  show ?thesis
    using m j r g s
      email_accepted_iff_shape [OF m j r g, of integer_host no_env "answer_always accepted" fresh_world]
    by blast
qed

text \<open>
  The claim as written fails. The address \<open>a@b@c.d\<close> is a non-whitespace local part
  \<open>a@b\<close>, \<open>@\<close>, a non-whitespace domain part \<open>c\<close>, a full stop and a non-whitespace
  last part \<open>d\<close>, and both workers reject it.
\<close>

theorem email_shape_counterexample:
  "lit ''a@b@c.d'' = lit ''a@b'' @ [0x40] @ lit ''c'' @ [0x2E] @ lit ''d'' \<and>
   spec_part (lit ''a@b'') \<and> spec_part (lit ''c'') \<and> spec_part (lit ''d'') \<and>
   list_all (non_blank_text (enquiry_with (JStr (lit ''a@b@c.d'')) (JStr (lit ''4'')))) required \<and>
   fst (fetch_mailchannels integer_host no_env (answer_always accepted)
          (post_with (enquiry_with (JStr (lit ''a@b@c.d'')) (JStr (lit ''4'')))) fresh_world) =
     Inr (jsonResponse (JObj [(lit ''error'', JStr (lit ''Invalid email address''))]) 400
            (post_with (enquiry_with (JStr (lit ''a@b@c.d'')) (JStr (lit ''4''))))) \<and>
   fst (fetch_resend integer_host key_env (answer_always accepted)
          (post_with (enquiry_with (JStr (lit ''a@b@c.d'')) (JStr (lit ''4'')))) fresh_world) =
     Inr (jsonResponse (JObj [(lit ''error'', JStr (lit ''Invalid email address''))]) 400
            (post_with (enquiry_with (JStr (lit ''a@b@c.d'')) (JStr (lit ''4'')))))"
  by code_simp

subsection \<open>C7: the missing credential\<close>

text \<open>
  C7. In the Resend worker, a \<open>POST\<close> request with a valid payload meets an environment
  without \<open>RESEND_API_KEY\<close>: the answer is 500 with
  \<open>{error: "Email service not configured"}\<close>, and no outbound call is made.
\<close>

theorem missing_api_key_is_configuration_error:
  assumes "http_method request = lit ''POST''" and "json request = Some data" and "valid_payload data"
    and "RESEND_API_KEY env = None"
  shows "fetch_resend h env provider request w =
           (Inr (jsonResponse (JObj [(lit ''error'', JStr (lit ''Email service not configured''))])
                   500 request), w\<lparr>bodyUsed := True\<rparr>) \<and>
         sent (snd (fetch_resend h env provider request w)) = sent w"
proof -
  from assms(3) obtain e where "required_loop h data required = Inr None"
    and "interp h (get_prop data (lit ''email'')) = Inr e" and "regex_test EMAIL_RE e"
    by (rule valid_payload_checks)
  with assms show ?thesis
    by (simp add: fetch_resend_def request_json_def)
qed

theorem missing_api_key_is_configuration_error_witness:
  "http_method (post_with sample_enquiry) = lit ''POST'' \<and>
   json (post_with sample_enquiry) = Some sample_enquiry \<and>
   valid_payload sample_enquiry \<and>
   RESEND_API_KEY no_env = None \<and>
   fetch_resend integer_host no_env (answer_always accepted) (post_with sample_enquiry) fresh_world =
     (Inr (jsonResponse (JObj [(lit ''error'', JStr (lit ''Email service not configured''))])
             500 (post_with sample_enquiry)), fresh_world\<lparr>bodyUsed := True\<rparr>)"
proof -
  have m: "http_method (post_with sample_enquiry) = lit ''POST''"
    by (simp add: post_with_def)
  have j: "json (post_with sample_enquiry) = Some sample_enquiry"
    by (simp add: post_with_def)
  have v: "valid_payload sample_enquiry"
    by code_simp
  have k: "RESEND_API_KEY no_env = None"
    by (simp add: no_env_def)
  show ?thesis
    using m j v k
      missing_api_key_is_configuration_error [OF m j v k, of integer_host "answer_always accepted" fresh_world]
    by blast
qed

subsection \<open>C3: the first send fails\<close>

text \<open>
  C3. Take a \<open>POST\<close> request with a valid payload, let \<open>q\<close> be the notification call
  the worker builds from it, and let the provider answer \<open>q\<close> with a response \<open>r\<close>
  whose status is not in 200 to 299. Then the worker answers 500 with
  \<open>{error: "Failed to send enquiry. Please try again or contact us directly."}\<close>, has
  logged the provider's text, and \<open>q\<close> is the only outbound call it has made: the
  confirmation is never sent. This holds for the MailChannels worker and, once an API key
  is configured, for the Resend worker.
\<close>

theorem first_send_failure_aborts:
  assumes "http_method request = lit ''POST''" and "json request = Some data" and "valid_payload data"
    and "provider (sent w) q = Resolved r" and "\<not> ok r"
  shows "(mailchannels_enquiry h (toEmail env) data = Inr q \<longrightarrow>
            fetch_mailchannels h env provider request w =
              (Inr (jsonResponse
                 (JObj [(lit ''error'',
                         JStr (lit ''Failed to send enquiry. Please try again or contact us directly.''))])
                 500 request),
               w\<lparr>bodyUsed := True, sent := sent w @ [q],
                 console := console w @ [[lit ''MailChannels error:'', up_text r]]\<rparr>)) \<and>
         (RESEND_API_KEY env = Some apiKey \<and> apiKey \<noteq> [] \<and>
          resend_enquiry h apiKey (toEmail env) data = Inr q \<longrightarrow>
            fetch_resend h env provider request w =
              (Inr (jsonResponse
                 (JObj [(lit ''error'',
                         JStr (lit ''Failed to send enquiry. Please try again or contact us directly.''))])
                 500 request),
               w\<lparr>bodyUsed := True, sent := sent w @ [q],
                 console := console w @ [[lit ''Resend error:'', up_text r]]\<rparr>))"
  using assms fetch_mailchannels_first_fails [of request data h env q provider w r]
    fetch_resend_first_fails [of request data env apiKey h q provider w r]
  by blast

theorem first_send_failure_aborts_witness:
  "http_method (post_with sample_enquiry) = lit ''POST'' \<and>
   json (post_with sample_enquiry) = Some sample_enquiry \<and>
   valid_payload sample_enquiry \<and>
   \<not> ok unavailable \<and>
   (\<exists>q. mailchannels_enquiry integer_host (toEmail no_env) sample_enquiry = Inr q \<and>
        answer_always unavailable (sent fresh_world) q = Resolved unavailable \<and>
        fetch_mailchannels integer_host no_env (answer_always unavailable) (post_with sample_enquiry)
            fresh_world =
          (Inr (jsonResponse
             (JObj [(lit ''error'',
                     JStr (lit ''Failed to send enquiry. Please try again or contact us directly.''))])
             500 (post_with sample_enquiry)),
           fresh_world\<lparr>bodyUsed := True, sent := sent fresh_world @ [q],
             console := console fresh_world @ [[lit ''MailChannels error:'', up_text unavailable]]\<rparr>))"
proof -
  have m: "http_method (post_with sample_enquiry) = lit ''POST''"
    by (simp add: post_with_def)
  have j: "json (post_with sample_enquiry) = Some sample_enquiry"
    by (simp add: post_with_def)
  have v: "valid_payload sample_enquiry"
    by code_simp
  have n: "\<not> ok unavailable"
    by (simp add: ok_def unavailable_def)
  obtain q where q: "mailchannels_enquiry integer_host (toEmail no_env) sample_enquiry = Inr q"
    using enquiry_renders [OF v, of integer_host "toEmail no_env"]
    by (auto simp: optional_text_def sample_enquiry_def enquiry_with_def)
  have p: "answer_always unavailable (sent fresh_world) q = Resolved unavailable"
    by (simp add: answer_always_def)
  show ?thesis
    using m j v n q p first_send_failure_aborts [of "post_with sample_enquiry" sample_enquiry
        "answer_always unavailable" fresh_world q unavailable integer_host no_env]
    by blast
qed

subsection \<open>C5: the confirmation fails\<close>

text \<open>
  C5, as amended. Take a \<open>POST\<close> request with a valid payload, let \<open>q1\<close> and \<open>q2\<close> be
  the notification and the confirmation call the worker builds from it, and let the
  provider accept \<open>q1\<close>. If the provider returns a response \<open>r2\<close> to \<open>q2\<close>, whatever
  its status, a failure included, the worker answers 200 with the success body and has
  made exactly the two calls: \<open>r2\<close> occurs nowhere in the result. If instead the
  \<open>fetch\<close> of \<open>q2\<close> rejects without a response, nothing catches the rejection: the
  worker ends with that exception after both calls and returns no response. This holds
  for the MailChannels worker and, once an API key is configured, for the Resend worker.
  (The claim as written says the outcome of the confirmation is never surfaced; see the
  counterexample.)
\<close>

theorem confirmation_response_not_surfaced:
  assumes "http_method request = lit ''POST''" and "json request = Some data" and "valid_payload data"
    and "provider (sent w) q1 = Resolved r1" and "ok r1"
  shows "(mailchannels_enquiry h (toEmail env) data = Inr q1 \<and>
          mailchannels_confirmation h data = Inr q2 \<longrightarrow>
            (provider (sent w @ [q1]) q2 = Resolved r2 \<longrightarrow>
               fetch_mailchannels h env provider request w =
                 (Inr (jsonResponse
                    (JObj [(lit ''success'', JBool True),
                           (lit ''message'', JStr (lit ''Enquiry received. We will respond within 24 hours.''))])
                    200 request),
                  w\<lparr>bodyUsed := True, sent := sent w @ [q1, q2]\<rparr>)) \<and>
            (provider (sent w @ [q1]) q2 = Rejected \<longrightarrow>
               fetch_mailchannels h env provider request w =
                 (Inl NetworkError, w\<lparr>bodyUsed := True, sent := sent w @ [q1, q2]\<rparr>))) \<and>
         (RESEND_API_KEY env = Some apiKey \<and> apiKey \<noteq> [] \<and>
          resend_enquiry h apiKey (toEmail env) data = Inr q1 \<and>
          resend_confirmation h apiKey data = Inr q2 \<longrightarrow>
            (provider (sent w @ [q1]) q2 = Resolved r2 \<longrightarrow>
               fetch_resend h env provider request w =
                 (Inr (jsonResponse
                    (JObj [(lit ''success'', JBool True),
                           (lit ''message'', JStr (lit ''Enquiry received. We will respond within 24 hours.''))])
                    200 request),
                  w\<lparr>bodyUsed := True, sent := sent w @ [q1, q2]\<rparr>)) \<and>
            (provider (sent w @ [q1]) q2 = Rejected \<longrightarrow>
               fetch_resend h env provider request w =
                 (Inl NetworkError, w\<lparr>bodyUsed := True, sent := sent w @ [q1, q2]\<rparr>)))"
  using assms fetch_mailchannels_two_sends [of request data h env q1 provider w r1 q2 r2]
    fetch_resend_two_sends [of request data env apiKey h q1 provider w r1 q2 r2]
    fetch_mailchannels_second_rejects [of request data h env q1 provider w r1 q2]
    fetch_resend_second_rejects [of request data env apiKey h q1 provider w r1 q2]
  by blast

theorem confirmation_response_not_surfaced_witness:
  "http_method (post_with sample_enquiry) = lit ''POST'' \<and>
   json (post_with sample_enquiry) = Some sample_enquiry \<and>
   valid_payload sample_enquiry \<and>
   ok accepted \<and> \<not> ok unavailable \<and>
   (\<exists>q1 q2. mailchannels_enquiry integer_host (toEmail no_env) sample_enquiry = Inr q1 \<and>
        mailchannels_confirmation integer_host sample_enquiry = Inr q2 \<and>
        accept_then unavailable (sent fresh_world) q1 = Resolved accepted \<and>
        accept_then unavailable (sent fresh_world @ [q1]) q2 = Resolved unavailable \<and>
        fetch_mailchannels integer_host no_env (accept_then unavailable) (post_with sample_enquiry)
            fresh_world =
          (Inr (jsonResponse
             (JObj [(lit ''success'', JBool True),
                    (lit ''message'', JStr (lit ''Enquiry received. We will respond within 24 hours.''))])
             200 (post_with sample_enquiry)),
           fresh_world\<lparr>bodyUsed := True, sent := sent fresh_world @ [q1, q2]\<rparr>))"
proof -
  have m: "http_method (post_with sample_enquiry) = lit ''POST''"
    by (simp add: post_with_def)
  have j: "json (post_with sample_enquiry) = Some sample_enquiry"
    by (simp add: post_with_def)
  have v: "valid_payload sample_enquiry"
    by code_simp
  have a: "ok accepted"
    by (simp add: ok_def accepted_def)
  have n: "\<not> ok unavailable"
    by (simp add: ok_def unavailable_def)
  obtain q1 where q1: "mailchannels_enquiry integer_host (toEmail no_env) sample_enquiry = Inr q1"
    using enquiry_renders [OF v, of integer_host "toEmail no_env"]
    by (auto simp: optional_text_def sample_enquiry_def enquiry_with_def)
  obtain q2 where q2: "mailchannels_confirmation integer_host sample_enquiry = Inr q2"
    using confirmation_renders [OF v, of integer_host] by blast
  have p1: "accept_then unavailable (sent fresh_world) q1 = Resolved accepted"
    by (simp add: accept_then_def fresh_world_def)
  have p2: "accept_then unavailable (sent fresh_world @ [q1]) q2 = Resolved unavailable"
    by (simp add: accept_then_def)
  show ?thesis
    using m j v a n q1 q2 p1 p2
      confirmation_response_not_surfaced [where request = "post_with sample_enquiry"
        and data = sample_enquiry and provider = "accept_then unavailable" and w = fresh_world
        and ?q1.0 = q1 and ?r1.0 = accepted and ?q2.0 = q2 and ?r2.0 = unavailable
        and h = integer_host and env = no_env]
    by blast
qed

text \<open>
  The claim as written fails. On a valid payload, with a provider that accepts the
  notification and whose second \<open>fetch\<close> rejects, both workers make their two calls and
  then end with the rejection instead of the 200 response: the outcome of the
  confirmation reaches the caller.
\<close>

theorem confirmation_rejection_counterexample:
  "valid_payload sample_enquiry \<and> ok accepted \<and>
   fst (fetch_mailchannels integer_host no_env accept_then_reject (post_with sample_enquiry)
          fresh_world) = Inl NetworkError \<and>
   length (sent (snd (fetch_mailchannels integer_host no_env accept_then_reject
          (post_with sample_enquiry) fresh_world))) = 2 \<and>
   map (accept_then_reject [])
     (take 1 (sent (snd (fetch_mailchannels integer_host no_env accept_then_reject
          (post_with sample_enquiry) fresh_world)))) = [Resolved accepted] \<and>
   fst (fetch_resend integer_host key_env accept_then_reject (post_with sample_enquiry)
          fresh_world) = Inl NetworkError \<and>
   length (sent (snd (fetch_resend integer_host key_env accept_then_reject
          (post_with sample_enquiry) fresh_world))) = 2 \<and>
   map (accept_then_reject [])
     (take 1 (sent (snd (fetch_resend integer_host key_env accept_then_reject
          (post_with sample_enquiry) fresh_world)))) = [Resolved accepted]"
proof -
  have m: "http_method (post_with sample_enquiry) = lit ''POST''"
    by (simp add: post_with_def)
  have j: "json (post_with sample_enquiry) = Some sample_enquiry"
    by (simp add: post_with_def)
  have v: "valid_payload sample_enquiry"
    by code_simp
  have a: "ok accepted"
    by (simp add: ok_def accepted_def)
  have k: "RESEND_API_KEY key_env = Some (lit ''re_test'')"
    by (simp add: key_env_def)
  have k': "lit ''re_test'' \<noteq> []"
    by simp
  obtain q1 where q1: "mailchannels_enquiry integer_host (toEmail no_env) sample_enquiry = Inr q1"
    using enquiry_renders [OF v, of integer_host "toEmail no_env"]
    by (auto simp: optional_text_def sample_enquiry_def enquiry_with_def)
  obtain q2 where q2: "mailchannels_confirmation integer_host sample_enquiry = Inr q2"
    using confirmation_renders [OF v, of integer_host] by blast
  obtain s1 where s1: "resend_enquiry integer_host (lit ''re_test'') (toEmail key_env) sample_enquiry = Inr s1"
    using enquiry_renders [OF v, of integer_host "toEmail key_env" "lit ''re_test''"]
    by (auto simp: optional_text_def sample_enquiry_def enquiry_with_def)
  obtain s2 where s2: "resend_confirmation integer_host (lit ''re_test'') sample_enquiry = Inr s2"
    using confirmation_renders [OF v, of integer_host "lit ''re_test''"] by blast
  have first: "accept_then_reject (sent fresh_world) q = Resolved accepted" for q
    by (simp add: accept_then_reject_def fresh_world_def)
  have second: "accept_then_reject (sent fresh_world @ [q]) q' = Rejected" for q q'
    by (simp add: accept_then_reject_def)
  have mc: "fetch_mailchannels integer_host no_env accept_then_reject (post_with sample_enquiry)
              fresh_world =
            (Inl NetworkError, fresh_world\<lparr>bodyUsed := True, sent := sent fresh_world @ [q1, q2]\<rparr>)"
    using fetch_mailchannels_second_rejects [of "post_with sample_enquiry" sample_enquiry integer_host
        no_env q1 accept_then_reject fresh_world accepted q2] m j v q1 q2 a first second
    by blast
  have rs: "fetch_resend integer_host key_env accept_then_reject (post_with sample_enquiry)
              fresh_world =
            (Inl NetworkError, fresh_world\<lparr>bodyUsed := True, sent := sent fresh_world @ [s1, s2]\<rparr>)"
    using fetch_resend_second_rejects [of "post_with sample_enquiry" sample_enquiry key_env
        "lit ''re_test''" integer_host s1 accept_then_reject fresh_world accepted s2]
      m j v k k' s1 s2 a first second
    by blast
  have none: "sent fresh_world = []"
    by (simp add: fresh_world_def)
  have answer: "accept_then_reject [] q = Resolved accepted" for q
    by (simp add: accept_then_reject_def)
  show ?thesis
    using v a by (simp add: mc rs none answer)
qed

subsection \<open>C6: both sends are accepted\<close>

text \<open>
  C6. Take a \<open>POST\<close> request with a valid payload, let \<open>q1\<close> and \<open>q2\<close> be the
  notification and the confirmation call the worker builds from it, and let the provider
  accept both. Then the response of the MailChannels worker, and of the Resend worker
  when an API key is configured, is exactly: status 200, the JSON and CORS headers, and
  the body \<open>{success: true, message: "Enquiry received. We will respond within 24 hours."}\<close>.
\<close>

theorem both_sends_accepted_success:
  assumes "http_method request = lit ''POST''" and "json request = Some data" and "valid_payload data"
    and "provider (sent w) q1 = Resolved r1" and "ok r1"
    and "provider (sent w @ [q1]) q2 = Resolved r2" and "ok r2"
  shows "(mailchannels_enquiry h (toEmail env) data = Inr q1 \<and>
          mailchannels_confirmation h data = Inr q2 \<longrightarrow>
            fst (fetch_mailchannels h env provider request w) =
              Inr \<lparr>res_status = 200,
                    res_headers = (lit ''Content-Type'', lit ''application/json'') # corsHeaders request,
                    res_body = Some (JObj [(lit ''success'', JBool True),
                                           (lit ''message'',
                                            JStr (lit ''Enquiry received. We will respond within 24 hours.''))])\<rparr>) \<and>
         (RESEND_API_KEY env = Some apiKey \<and> apiKey \<noteq> [] \<and>
          resend_enquiry h apiKey (toEmail env) data = Inr q1 \<and>
          resend_confirmation h apiKey data = Inr q2 \<longrightarrow>
            fst (fetch_resend h env provider request w) =
              Inr \<lparr>res_status = 200,
                    res_headers = (lit ''Content-Type'', lit ''application/json'') # corsHeaders request,
                    res_body = Some (JObj [(lit ''success'', JBool True),
                                           (lit ''message'',
                                            JStr (lit ''Enquiry received. We will respond within 24 hours.''))])\<rparr>)"
  using assms fetch_mailchannels_two_sends [of request data h env q1 provider w r1 q2 r2]
    fetch_resend_two_sends [of request data env apiKey h q1 provider w r1 q2 r2]
  by (auto simp: jsonResponse_def)

theorem both_sends_accepted_success_witness:
  "http_method (post_with sample_enquiry) = lit ''POST'' \<and>
   json (post_with sample_enquiry) = Some sample_enquiry \<and>
   valid_payload sample_enquiry \<and>
   ok accepted \<and>
   RESEND_API_KEY key_env = Some (lit ''re_test'') \<and> lit ''re_test'' \<noteq> [] \<and>
   (\<exists>q1 q2. resend_enquiry integer_host (lit ''re_test'') (toEmail key_env) sample_enquiry = Inr q1 \<and>
        resend_confirmation integer_host (lit ''re_test'') sample_enquiry = Inr q2 \<and>
        answer_always accepted (sent fresh_world) q1 = Resolved accepted \<and>
        answer_always accepted (sent fresh_world @ [q1]) q2 = Resolved accepted) \<and>
   fst (fetch_resend integer_host key_env (answer_always accepted) (post_with sample_enquiry) fresh_world) =
     Inr \<lparr>res_status = 200,
           res_headers = (lit ''Content-Type'', lit ''application/json'') #
                         corsHeaders (post_with sample_enquiry),
           res_body = Some (JObj [(lit ''success'', JBool True),
                                  (lit ''message'',
                                   JStr (lit ''Enquiry received. We will respond within 24 hours.''))])\<rparr>"
proof -
  have m: "http_method (post_with sample_enquiry) = lit ''POST''"
    by (simp add: post_with_def)
  have j: "json (post_with sample_enquiry) = Some sample_enquiry"
    by (simp add: post_with_def)
  have v: "valid_payload sample_enquiry"
    by code_simp
  have a: "ok accepted"
    by (simp add: ok_def accepted_def)
  have k: "RESEND_API_KEY key_env = Some (lit ''re_test'')"
    by (simp add: key_env_def)
  have k': "lit ''re_test'' \<noteq> []"
    by simp
  obtain q1 where q1: "resend_enquiry integer_host (lit ''re_test'') (toEmail key_env) sample_enquiry = Inr q1"
    using enquiry_renders [OF v, of integer_host "toEmail key_env" "lit ''re_test''"]
    by (auto simp: optional_text_def sample_enquiry_def enquiry_with_def)
  obtain q2 where q2: "resend_confirmation integer_host (lit ''re_test'') sample_enquiry = Inr q2"
    using confirmation_renders [OF v, of integer_host "lit ''re_test''"] by blast
  have p1: "answer_always accepted (sent fresh_world) q1 = Resolved accepted"
    by (simp add: answer_always_def)
  have p2: "answer_always accepted (sent fresh_world @ [q1]) q2 = Resolved accepted"
    by (simp add: answer_always_def)
  show ?thesis
    using m j v a k k' q1 q2 p1 p2
      both_sends_accepted_success [of "post_with sample_enquiry" sample_enquiry
        "answer_always accepted" fresh_world q1 accepted q2 accepted integer_host key_env "lit ''re_test''"]
    by blast
qed

end
